theory Spec2Isabelle
  imports Complex_Main "HOL-Library.AList" "HOL-Library.Log_Nat"
begin

section \<open>Data model\<close>

text \<open>
  The services are NestJS classes over a Prisma client. Rows are records, the relational
  store is a record of tables (lists of rows, in insertion order), and every service
  method is a function from the store to a result and the store it leaves behind.
  Row ids are generated by the store; they are natural numbers here, a new row taking
  one more than the largest id of its table.
\<close>

type_synonym ident = nat

text \<open>A JavaScript number: a finite value, or one of the three non-finite ones.
  A finite value is the rational number that the double stands for, the two zeros being
  one. Where the code computes with numbers (the average response time), every operation
  is rounded to the nearest double by \<open>fl\<close> below.\<close>

datatype js_number = Finite rat | NaN | PosInfinity | NegInfinity

text \<open>A JSON value, as a \<open>Json\<close> column or \<open>JSON.parse\<close> delivers it. An object keeps
  its properties in insertion order.\<close>

datatype json =
    JNull
  | JBool bool
  | JNumber js_number
  | JString string
  | JArray "json list"
  | JObject "(string \<times> json) list"

datatype UserRole = ADMIN | EMERGENCY_CENTER | HOSPITAL | RESCUE_TEAM | PATIENT

record user =
  user_id :: ident
  firstName :: string
  lastName :: string
  user_role :: UserRole
  user_status :: string
  user_organizationId :: "ident option"

record organization =
  org_id :: ident
  org_name :: string
  org_type :: string
  org_status :: string
  availableBeds :: "int option"
  org_updatedAt :: int

text \<open>The status of a request is a string column: \<open>assignToHospital\<close> compares it with
  \<open>"Active"\<close>, and the manual path of the hospital service writes a response status into it.\<close>

record emergency_request =
  req_id :: ident
  req_status :: string
  req_type :: string
  description :: string
  location :: string
  latitude :: rat
  longitude :: rat
  medicalInfo :: "json option"
  patientId :: ident
  updatedBy :: "ident option"

text \<open>Timestamps are milliseconds since the epoch (\<open>Date.getTime()\<close>); a \<open>DateTime\<close>
  column reads back as a \<open>Date\<close> or as \<open>null\<close>. The time value of a valid \<open>Date\<close> is a
  whole number of at most 8640000000000000 in absolute value; an integer beyond that
  stands for an invalid \<open>Date\<close>, whose time value is \<open>NaN\<close>.\<close>

record emergency_response =
  resp_id :: ident
  emergencyRequestId :: ident
  organizationId :: ident
  resp_status :: string
  dispatchTime :: "int option"
  completionTime :: "int option"
  resp_notes :: "string option"
  resp_createdAt :: int

text \<open>A notification row. Its body and metadata are rendered from the emergency id and
  are not kept apart from it.\<close>

record notification =
  n_type :: string
  n_title :: string
  n_userId :: ident
  n_emergencyId :: ident

datatype broadcast =
    BroadcastEmergency ident
  | BroadcastHospitalUpdate ident "int option"
  | BroadcastStatusUpdate ident string
  | BroadcastStatsUpdated

record store =
  users :: "user list"
  organizations :: "organization list"
  emergencyRequests :: "emergency_request list"
  emergencyResponses :: "emergency_response list"
  notifications :: "notification list"
  broadcasts :: "broadcast list"

text \<open>
  Modelled from the spec: the enumeration \<open>EmergencyStatus\<close> of \<open>sos/dto/sos.dto.ts\<close>
  (the file is not among the sources). Section 3 of the specification lists its five
  members; each member is its own name as a string.
\<close>

abbreviation PENDING :: string where "PENDING \<equiv> ''PENDING''"
abbreviation ASSIGNED :: string where "ASSIGNED \<equiv> ''ASSIGNED''"
abbreviation IN_PROGRESS :: string where "IN_PROGRESS \<equiv> ''IN_PROGRESS''"
abbreviation COMPLETED :: string where "COMPLETED \<equiv> ''COMPLETED''"
abbreviation CANCELLED :: string where "CANCELLED \<equiv> ''CANCELLED''"

definition EmergencyStatus :: "string list" where
  "EmergencyStatus = [PENDING, ASSIGNED, IN_PROGRESS, COMPLETED, CANCELLED]"

section \<open>Exceptions and effects\<close>

text \<open>The exceptions the services throw. \<open>Error\<close> is any other rejection: a failed
  Prisma call, or one thrown by the notification writer or the gateway.\<close>

datatype exception =
    NotFoundException string
  | BadRequestException string
  | InternalServerErrorException string
  | Error string

fun message :: "exception \<Rightarrow> string" where
  "message (NotFoundException m) = m"
| "message (BadRequestException m) = m"
| "message (InternalServerErrorException m) = m"
| "message (Error m) = m"

text \<open>
  Modelled from the spec: the error taxonomy of section 7 and its mapping at the REST
  boundary (NotFound to 404, Validation to 400, Internal to 500), which the exception
  filter of the framework carries out.
\<close>

datatype error_class = NotFound | Validation | Internal

fun classify :: "exception \<Rightarrow> error_class" where
  "classify (NotFoundException m) = NotFound"
| "classify (BadRequestException m) = Validation"
| "classify (InternalServerErrorException m) = Internal"
| "classify (Error m) = Internal"

text \<open>The calls of the Prisma client that the services make.\<close>

datatype prisma_call =
    EmergencyRequest_create
  | EmergencyRequest_findUnique
  | EmergencyRequest_findMany
  | EmergencyRequest_count
  | EmergencyRequest_update
  | EmergencyResponse_create
  | EmergencyResponse_findUnique
  | EmergencyResponse_findMany
  | EmergencyResponse_update
  | Organization_findUnique
  | Organization_findFirst
  | Organization_findMany
  | Organization_count
  | Organization_update
  | User_findMany

text \<open>
  What a service method does not decide itself: the clock, whether a call of the store is
  rejected (the store is unavailable, a connection is lost), whether the notification
  writer rejects a row, and whether the gateway rejects \<open>broadcastStatsUpdated\<close>;
  and three built-ins of the language that are taken as they are: \<open>JSON.parse\<close>
  (\<open>None\<close> when it throws), the conversion of a string to a number and the printing of
  a number.
\<close>

record env =
  now :: int
  rejects :: "prisma_call \<Rightarrow> bool"
  notificationRejects :: "notification \<Rightarrow> bool"
  gatewayRejects :: bool
  JSON_parse :: "string \<Rightarrow> json option"
  StringToNumber :: "string \<Rightarrow> js_number"
  NumberToString :: "js_number \<Rightarrow> string"

definition storeAvailable :: "env \<Rightarrow> bool" where
  "storeAvailable e = (\<forall>c. \<not> rejects e c)"

definition notificationsDelivered :: "env \<Rightarrow> bool" where
  "notificationsDelivered e = (\<forall>n. \<not> notificationRejects e n)"

text \<open>An asynchronous method: from the store to the value it resolves to, or the exception
  it rejects with, and the store afterwards.\<close>

type_synonym 'a action = "store \<Rightarrow> (exception + 'a) \<times> store"

definition ret :: "'a \<Rightarrow> 'a action" where
  "ret x s = (Inr x, s)"

definition throw :: "exception \<Rightarrow> 'a action" where
  "throw e s = (Inl e, s)"

text \<open>\<open>const x = await m; f x\<close>\<close>

definition await :: "'a action \<Rightarrow> ('a \<Rightarrow> 'b action) \<Rightarrow> 'b action" where
  "await m f s = (case m s of (Inl e, s') \<Rightarrow> (Inl e, s') | (Inr x, s') \<Rightarrow> f x s')"

text \<open>\<open>try { m } catch (error) { h error }\<close>\<close>

definition tryCatch :: "'a action \<Rightarrow> (exception \<Rightarrow> 'a action) \<Rightarrow> 'a action" where
  "tryCatch m h s = (case m s of (Inl e, s') \<Rightarrow> h e s' | (Inr x, s') \<Rightarrow> (Inr x, s'))"

text \<open>\<open>for (const x of xs) { await f x }\<close>\<close>

fun forEach :: "'a list \<Rightarrow> ('a \<Rightarrow> unit action) \<Rightarrow> unit action" where
  "forEach [] f = ret ()"
| "forEach (x # xs) f = await (f x) (\<lambda>_. forEach xs f)"

text \<open>
  \<open>prisma.$transaction(async (prisma) => body)\<close>: when the body rejects, the writes made
  through the transaction client are undone. The notification writer holds the client of
  its own, so the rows it wrote stay, and so does what the gateway has emitted.
\<close>

definition transaction :: "'a action \<Rightarrow> 'a action" where
  "transaction body s =
     (case body s of
        (Inl e, s') \<Rightarrow>
          (Inl e, s'\<lparr>users := users s, organizations := organizations s,
                     emergencyRequests := emergencyRequests s,
                     emergencyResponses := emergencyResponses s\<rparr>)
      | (Inr x, s') \<Rightarrow> (Inr x, s'))"

section \<open>The Prisma client\<close>

definition prisma :: "env \<Rightarrow> prisma_call \<Rightarrow> (store \<Rightarrow> (exception + 'a) \<times> store) \<Rightarrow> 'a action" where
  "prisma e c q s = (if rejects e c then (Inl (Error ''Prisma call rejected''), s) else q s)"

definition freshId :: "ident list \<Rightarrow> ident" where
  "freshId ids = Suc (fold max ids 0)"

definition emergencyRequest_findUnique :: "env \<Rightarrow> ident \<Rightarrow> emergency_request option action" where
  "emergencyRequest_findUnique e i =
     prisma e EmergencyRequest_findUnique
       (\<lambda>s. (Inr (find (\<lambda>r. req_id r = i) (emergencyRequests s)), s))"

text \<open>\<open>findUnique\<close> with \<open>include: { responses: ... }\<close>: the row and its responses.\<close>

definition emergencyRequest_findUnique_responses ::
  "env \<Rightarrow> ident \<Rightarrow> (emergency_request \<times> emergency_response list) option action" where
  "emergencyRequest_findUnique_responses e i =
     prisma e EmergencyRequest_findUnique
       (\<lambda>s. (Inr (map_option
                 (\<lambda>r. (r, filter (\<lambda>p. emergencyRequestId p = i) (emergencyResponses s)))
                 (find (\<lambda>r. req_id r = i) (emergencyRequests s))), s))"

text \<open>\<open>findUnique\<close> with \<open>include: { responses: { include: { organization:
  { include: { users: true } } } } }\<close>: each response with the users of its organization.\<close>

definition emergencyRequest_findUnique_responses_users ::
  "env \<Rightarrow> ident \<Rightarrow> (emergency_request \<times> (emergency_response \<times> user list) list) option action" where
  "emergencyRequest_findUnique_responses_users e i =
     prisma e EmergencyRequest_findUnique
       (\<lambda>s. (Inr (map_option
                 (\<lambda>r. (r, map (\<lambda>p. (p, filter (\<lambda>u. user_organizationId u = Some (organizationId p))
                                          (users s)))
                             (filter (\<lambda>p. emergencyRequestId p = i) (emergencyResponses s))))
                 (find (\<lambda>r. req_id r = i) (emergencyRequests s))), s))"

text \<open>\<open>update\<close> rejects when no row has the id, and resolves to the updated row.\<close>

definition emergencyRequest_update ::
  "env \<Rightarrow> ident \<Rightarrow> (emergency_request \<Rightarrow> emergency_request) \<Rightarrow> emergency_request action" where
  "emergencyRequest_update e i f =
     prisma e EmergencyRequest_update
       (\<lambda>s. case find (\<lambda>r. req_id r = i) (emergencyRequests s) of
               None \<Rightarrow> (Inl (Error ''Record to update not found''), s)
             | Some r \<Rightarrow>
                 (Inr (f r),
                  s\<lparr>emergencyRequests :=
                      map (\<lambda>r. if req_id r = i then f r else r) (emergencyRequests s)\<rparr>))"

definition emergencyRequest_findMany :: "env \<Rightarrow> emergency_request list action" where
  "emergencyRequest_findMany e =
     prisma e EmergencyRequest_findMany (\<lambda>s. (Inr (emergencyRequests s), s))"

definition emergencyRequest_count :: "env \<Rightarrow> (emergency_request \<Rightarrow> bool) \<Rightarrow> nat action" where
  "emergencyRequest_count e wh =
     prisma e EmergencyRequest_count (\<lambda>s. (Inr (length (filter wh (emergencyRequests s))), s))"

text \<open>\<open>create\<close> with \<open>patient: { connect: { id } }\<close> and \<open>include: { patient: true }\<close>: it
  rejects when no user has the id, and resolves to the new row and the patient.\<close>

definition emergencyRequest_create ::
  "env \<Rightarrow> emergency_request \<Rightarrow> (emergency_request \<times> user) action" where
  "emergencyRequest_create e d =
     prisma e EmergencyRequest_create
       (\<lambda>s. case find (\<lambda>u. user_id u = patientId d) (users s) of
               None \<Rightarrow> (Inl (Error ''Record to connect not found''), s)
             | Some patient \<Rightarrow>
                 (let r = d\<lparr>req_id := freshId (map req_id (emergencyRequests s))\<rparr>
                  in (Inr (r, patient), s\<lparr>emergencyRequests := emergencyRequests s @ [r]\<rparr>)))"

text \<open>A response row is created for a request and an organization that the caller has
  just read, so the foreign keys of the row are not checked again.\<close>

definition emergencyResponse_create :: "env \<Rightarrow> emergency_response \<Rightarrow> emergency_response action" where
  "emergencyResponse_create e d =
     prisma e EmergencyResponse_create
       (\<lambda>s. let r = d\<lparr>resp_id := freshId (map resp_id (emergencyResponses s))\<rparr>
             in (Inr r, s\<lparr>emergencyResponses := emergencyResponses s @ [r]\<rparr>))"

definition emergencyResponse_findUnique :: "env \<Rightarrow> ident \<Rightarrow> emergency_response option action" where
  "emergencyResponse_findUnique e i =
     prisma e EmergencyResponse_findUnique
       (\<lambda>s. (Inr (find (\<lambda>r. resp_id r = i) (emergencyResponses s)), s))"

definition emergencyResponse_findMany ::
  "env \<Rightarrow> (emergency_response \<Rightarrow> bool) \<Rightarrow> emergency_response list action" where
  "emergencyResponse_findMany e wh =
     prisma e EmergencyResponse_findMany (\<lambda>s. (Inr (filter wh (emergencyResponses s)), s))"

definition emergencyResponse_update ::
  "env \<Rightarrow> ident \<Rightarrow> (emergency_response \<Rightarrow> emergency_response) \<Rightarrow> emergency_response action" where
  "emergencyResponse_update e i f =
     prisma e EmergencyResponse_update
       (\<lambda>s. case find (\<lambda>r. resp_id r = i) (emergencyResponses s) of
               None \<Rightarrow> (Inl (Error ''Record to update not found''), s)
             | Some r \<Rightarrow>
                 (Inr (f r),
                  s\<lparr>emergencyResponses :=
                      map (\<lambda>r. if resp_id r = i then f r else r) (emergencyResponses s)\<rparr>))"

definition organization_findUnique :: "env \<Rightarrow> ident \<Rightarrow> organization option action" where
  "organization_findUnique e i =
     prisma e Organization_findUnique
       (\<lambda>s. (Inr (find (\<lambda>r. org_id r = i) (organizations s)), s))"

definition organization_findFirst ::
  "env \<Rightarrow> (organization \<Rightarrow> bool) \<Rightarrow> organization option action" where
  "organization_findFirst e wh =
     prisma e Organization_findFirst (\<lambda>s. (Inr (find wh (organizations s)), s))"

definition organization_findMany ::
  "env \<Rightarrow> (organization \<Rightarrow> bool) \<Rightarrow> organization list action" where
  "organization_findMany e wh =
     prisma e Organization_findMany (\<lambda>s. (Inr (filter wh (organizations s)), s))"

definition organization_count :: "env \<Rightarrow> (organization \<Rightarrow> bool) \<Rightarrow> nat action" where
  "organization_count e wh =
     prisma e Organization_count (\<lambda>s. (Inr (length (filter wh (organizations s))), s))"

definition organization_update ::
  "env \<Rightarrow> ident \<Rightarrow> (organization \<Rightarrow> organization) \<Rightarrow> organization action" where
  "organization_update e i f =
     prisma e Organization_update
       (\<lambda>s. case find (\<lambda>r. org_id r = i) (organizations s) of
               None \<Rightarrow> (Inl (Error ''Record to update not found''), s)
             | Some r \<Rightarrow>
                 (Inr (f r),
                  s\<lparr>organizations :=
                      map (\<lambda>r. if org_id r = i then f r else r) (organizations s)\<rparr>))"

definition user_findMany :: "env \<Rightarrow> (user \<Rightarrow> bool) \<Rightarrow> user list action" where
  "user_findMany e wh = prisma e User_findMany (\<lambda>s. (Inr (filter wh (users s)), s))"

text \<open>
  Modelled from the spec: the notification writer \<open>notification.service.ts\<close> (not among
  the sources). Section 4.2: it persists one Notification row per event and recipient, and
  its caller sees whether it succeeded or failed.
\<close>

definition createNotification :: "env \<Rightarrow> notification \<Rightarrow> unit action" where
  "createNotification e n s =
     (if notificationRejects e n then (Inl (Error ''Notification rejected''), s)
      else (Inr (), s\<lparr>notifications := notifications s @ [n]\<rparr>))"

text \<open>
  Modelled from the spec: the gateway \<open>notification.gateway.ts\<close> (not among the sources).
  Section 4.3: an emission is fire and forget; \<open>broadcastStatsUpdated\<close> is the one call
  the services await, and it may reject.
\<close>

definition emit :: "broadcast \<Rightarrow> unit action" where
  "emit b s = (Inr (), s\<lparr>broadcasts := broadcasts s @ [b]\<rparr>)"

definition broadcastStatsUpdated :: "env \<Rightarrow> unit action" where
  "broadcastStatsUpdated e =
     (if gatewayRejects e then throw (Error ''gateway rejected'') else emit BroadcastStatsUpdated)"

section \<open>JavaScript values\<close>

text \<open>The truth value of a JSON value in a condition.\<close>

fun truthy :: "json \<Rightarrow> bool" where
  "truthy JNull = False"
| "truthy (JBool b) = b"
| "truthy (JNumber n) = (n \<noteq> Finite 0 \<and> n \<noteq> NaN)"
| "truthy (JString str) = (str \<noteq> [])"
| "truthy (JArray xs) = True"
| "truthy (JObject props) = True"

text \<open>\<open>v.name\<close> for a value that is neither \<open>null\<close> nor \<open>undefined\<close>; \<open>None\<close> is
  \<open>undefined\<close>. Only an object has properties of its own under the names read here.\<close>

fun property :: "json \<Rightarrow> string \<Rightarrow> json option" where
  "property (JObject props) name = map_of props name"
| "property v name = None"

text \<open>\<open>String(v)\<close>: an array joins its elements with commas, \<open>null\<close> printing as nothing.\<close>

fun ToString :: "env \<Rightarrow> json \<Rightarrow> string"
  and join :: "env \<Rightarrow> json list \<Rightarrow> string" where
  "ToString e JNull = ''null''"
| "ToString e (JBool b) = (if b then ''true'' else ''false'')"
| "ToString e (JNumber n) = NumberToString e n"
| "ToString e (JString str) = str"
| "ToString e (JArray xs) = join e xs"
| "ToString e (JObject props) = ''[object Object]''"
| "join e [] = []"
| "join e [x] = (if x = JNull then [] else ToString e x)"
| "join e (x # y # ys) = (if x = JNull then [] else ToString e x) @ '','' @ join e (y # ys)"

text \<open>\<open>Number(v)\<close>\<close>

fun Number :: "env \<Rightarrow> json \<Rightarrow> js_number" where
  "Number e JNull = Finite 0"
| "Number e (JBool b) = Finite (if b then 1 else 0)"
| "Number e (JNumber n) = n"
| "Number e (JString str) = StringToNumber e str"
| "Number e (JArray xs) = StringToNumber e (join e xs)"
| "Number e (JObject props) = NaN"

text \<open>
  The arithmetic of numbers is that of IEEE 754 binary64: the exact result, rounded to the
  nearest double, to the one with the even significand when two are equally near.
  \<open>ilog2 x\<close> is the exponent of a positive \<open>x\<close>, the integer with
  \<open>2 powi ilog2 x \<le> x < 2 powi (ilog2 x + 1)\<close>. The doubles around \<open>x\<close> are the multiples
  of \<open>quantum x\<close>: 52 binary places below the leading one, and those of the smallest
  normal numbers for the subnormal ones. \<open>fl x\<close> is the double nearest to \<open>x\<close>. Overflow
  to infinity is left out: the numbers computed here stay far below \<open>2 ^ 1024\<close>
  (lemmas \<open>responseTimesLoop_no_overflow\<close> and \<open>averageResponseTime_small\<close>).
\<close>

definition ilog2 :: "rat \<Rightarrow> int" where
  "ilog2 x = (case quotient_of x of (p, q) \<Rightarrow>
                (let d = bitlen p - bitlen q in if 2 powi d \<le> x then d else d - 1))"

definition rne :: "rat \<Rightarrow> int" where
  "rne y = (let f = \<lfloor>y\<rfloor>; r = y - of_int f
            in if r < 1 / 2 then f else if 1 / 2 < r then f + 1
               else if even f then f else f + 1)"

definition quantum :: "rat \<Rightarrow> rat" where
  "quantum x = 2 powi (max (ilog2 \<bar>x\<bar>) (- 1022) - 52)"

definition fl :: "rat \<Rightarrow> rat" where
  "fl x = (if x = 0 then 0 else of_int (rne (x / quantum x)) * quantum x)"

section \<open>SOS service\<close>

text \<open>The body of \<open>POST /sos\<close> as \<open>createEmergencyRequest\<close> reads it.\<close>

record CreateEmergencyRequestDto =
  dto_type :: string
  dto_description :: string
  dto_location :: string
  dto_latitude :: rat
  dto_longitude :: rat
  dto_medicalInfo :: "(string \<times> json) list option"
  dto_grade :: string
  dto_patientId :: "ident option"

text \<open>\<open>SosService.createEmergencyRequest\<close>. The object literal spreads the medical
  information of the body and then sets three properties, each replacing one of that name.\<close>

definition createEmergencyRequest ::
  "env \<Rightarrow> CreateEmergencyRequestDto \<Rightarrow> ident \<Rightarrow> emergency_request action" where
  "createEmergencyRequest e createSosDto userId =
     (let patientId = (case dto_patientId createSosDto of Some p \<Rightarrow> p | None \<Rightarrow> userId);
          medicalInfo =
            AList.update ''emergencyType'' (JString (dto_type createSosDto))
              (AList.update ''severity''
                 (JNumber (Finite (if dto_grade createSosDto = ''CRITICAL'' then 5
                                   else if dto_grade createSosDto = ''URGENT'' then 3 else 1)))
                 (AList.update ''grade'' (JString (dto_grade createSosDto))
                    (case dto_medicalInfo createSosDto of Some props \<Rightarrow> props | None \<Rightarrow> [])))
      in
      await (emergencyRequest_create e
               \<lparr>req_id = 0, req_status = PENDING, req_type = dto_type createSosDto,
                description = dto_description createSosDto,
                location = dto_location createSosDto,
                latitude = dto_latitude createSosDto,
                longitude = dto_longitude createSosDto,
                medicalInfo = Some (JObject medicalInfo),
                patientId = patientId, updatedBy = None\<rparr>)
        (\<lambda>(emergencyRequest, patient).
      await (user_findMany e
               (\<lambda>u. user_role u \<in> {EMERGENCY_CENTER, HOSPITAL, RESCUE_TEAM}
                    \<and> user_status u = ''ACTIVE''))
        (\<lambda>responders.
      await (forEach responders (\<lambda>responder.
               createNotification e
                 \<lparr>n_type = ''EMERGENCY'', n_title = ''New Emergency Request'',
                  n_userId = user_id responder, n_emergencyId = req_id emergencyRequest\<rparr>))
        (\<lambda>_.
      await (emit (BroadcastEmergency (req_id emergencyRequest)))
        (\<lambda>_.
      ret emergencyRequest)))))"

text \<open>\<open>SosService.assignToHospital\<close>\<close>

definition assignToHospital :: "env \<Rightarrow> ident \<Rightarrow> ident \<Rightarrow> ident \<Rightarrow> emergency_request action" where
  "assignToHospital e emergencyId hospitalId userId =
     await (transaction
       (await (emergencyRequest_findUnique_responses e emergencyId) (\<lambda>found.
          case found of
            None \<Rightarrow> throw (NotFoundException ''Emergency request not found'')
          | Some (emergency, responses) \<Rightarrow>
          if find (\<lambda>r. organizationId r = hospitalId) responses \<noteq> None
          then throw (BadRequestException ''This case has already been assigned to this hospital'')
          else
          (let normalizedStatus =
                 (if req_status emergency = ''Active'' \<or> req_status emergency = ''ACTIVE''
                  then PENDING else req_status emergency)
           in
           if normalizedStatus \<noteq> PENDING \<and> normalizedStatus \<noteq> ASSIGNED
           then throw (BadRequestException
                  (''Only PENDING or ASSIGNED cases can be assigned. Current status: ''
                     @ req_status emergency))
           else
           await (if req_status emergency \<noteq> normalizedStatus
                  then await (emergencyRequest_update e emergencyId
                                (\<lambda>r. r\<lparr>req_status := normalizedStatus\<rparr>)) (\<lambda>_. ret ())
                  else ret ())
             (\<lambda>_.
           await (organization_findUnique e hospitalId) (\<lambda>hospital.
             case hospital of
               None \<Rightarrow> throw (NotFoundException ''Hospital not found'')
             | Some hospital \<Rightarrow>
             if org_type hospital \<noteq> ''HOSPITAL''
             then throw (NotFoundException ''Hospital not found'')
             else
             if (case availableBeds hospital of None \<Rightarrow> True | Some beds \<Rightarrow> beds \<le> 0)
             then throw (BadRequestException ''No available beds in the selected hospital'')
             else
             await (emergencyRequest_update e emergencyId
                      (\<lambda>r. r\<lparr>req_status := ASSIGNED, updatedBy := Some userId\<rparr>))
               (\<lambda>updated.
             await (emergencyResponse_create e
                      \<lparr>resp_id = 0, emergencyRequestId = emergencyId,
                       organizationId = hospitalId, resp_status = ''ASSIGNED'',
                       dispatchTime = None, completionTime = None, resp_notes = None,
                       resp_createdAt = now e\<rparr>)
               (\<lambda>_.
             await (organization_update e hospitalId
                      (\<lambda>h. h\<lparr>availableBeds := map_option (\<lambda>beds. beds - 1) (availableBeds h),
                              org_updatedAt := now e\<rparr>))
               (\<lambda>updatedHospital.
             await (user_findMany e
                      (\<lambda>u. user_organizationId u = Some hospitalId \<and> user_role u = HOSPITAL
                           \<and> user_status u = ''ACTIVE''))
               (\<lambda>hospitalUsers.
             await (forEach hospitalUsers (\<lambda>user.
                      createNotification e
                        \<lparr>n_type = ''ASSIGNMENT'', n_title = ''New Emergency Assignment'',
                         n_userId = user_id user, n_emergencyId = emergencyId\<rparr>))
               (\<lambda>_.
             await (createNotification e
                      \<lparr>n_type = ''STATUS_UPDATE'', n_title = ''Emergency Status Update'',
                       n_userId = patientId emergency, n_emergencyId = emergencyId\<rparr>)
               (\<lambda>_.
             await (emit (BroadcastHospitalUpdate hospitalId (availableBeds updatedHospital)))
               (\<lambda>_.
             ret updated)))))))))))))
       (\<lambda>updatedEmergency.
     await (emit (BroadcastStatusUpdate (req_id updatedEmergency) (req_status updatedEmergency)))
       (\<lambda>_.
     ret updatedEmergency))"

text \<open>\<open>SosService.updateStatus\<close>\<close>

definition updateStatus :: "env \<Rightarrow> ident \<Rightarrow> string \<Rightarrow> emergency_request action" where
  "updateStatus e i status =
     await (transaction
       (await (emergencyRequest_findUnique_responses_users e i) (\<lambda>found.
          case found of
            None \<Rightarrow> throw (NotFoundException ''Emergency request not found'')
          | Some (emergency, responses) \<Rightarrow>
          await (emergencyRequest_update e i (\<lambda>r. r\<lparr>req_status := status\<rparr>))
            (\<lambda>updated.
          await (createNotification e
                   \<lparr>n_type = ''STATUS_UPDATE'', n_title = ''Emergency Status Update'',
                    n_userId = patientId emergency, n_emergencyId = req_id emergency\<rparr>)
            (\<lambda>_.
          await (forEach responses (\<lambda>(response, organization_users).
                   forEach organization_users (\<lambda>user.
                     createNotification e
                       \<lparr>n_type = ''STATUS_UPDATE'', n_title = ''Emergency Status Update'',
                        n_userId = user_id user, n_emergencyId = req_id emergency\<rparr>)))
            (\<lambda>_.
          ret updated))))))
       (\<lambda>updatedEmergency.
     await (emit (BroadcastStatusUpdate (req_id updatedEmergency) (req_status updatedEmergency)))
       (\<lambda>_.
     ret updatedEmergency))"


section \<open>Hospital service\<close>

text \<open>\<open>HospitalService.findOne\<close>, as far as its callers read the result: the row.\<close>

definition findOne :: "env \<Rightarrow> ident \<Rightarrow> organization action" where
  "findOne e i =
     await (organization_findFirst e (\<lambda>h. org_id h = i \<and> org_type h = ''HOSPITAL''))
       (\<lambda>hospital.
          case hospital of
            None \<Rightarrow> throw (NotFoundException ''Hospital not found'')
          | Some hospital \<Rightarrow> ret hospital)"

text \<open>\<open>HospitalService.acceptEmergency\<close>\<close>

definition acceptEmergency ::
  "env \<Rightarrow> ident \<Rightarrow> ident \<Rightarrow> string option \<Rightarrow> emergency_response action" where
  "acceptEmergency e hospitalId emergencyId notes =
     await (findOne e hospitalId) (\<lambda>hospital.
     await (emergencyRequest_findUnique e emergencyId) (\<lambda>emergency.
       case emergency of
         None \<Rightarrow> throw (NotFoundException ''Emergency request not found'')
       | Some emergency \<Rightarrow>
           if req_status emergency \<noteq> PENDING
           then throw (BadRequestException ''Emergency request is no longer pending'')
           else
             await (emergencyResponse_create e
                      \<lparr>resp_id = 0, emergencyRequestId = req_id emergency,
                       organizationId = hospitalId, resp_status = ''ACCEPTED'',
                       dispatchTime = None, completionTime = None, resp_notes = notes,
                       resp_createdAt = now e\<rparr>)
               (\<lambda>response.
             await (emergencyRequest_update e (req_id emergency)
                      (\<lambda>r. r\<lparr>req_status := ASSIGNED\<rparr>))
               (\<lambda>_.
             await (createNotification e
                      \<lparr>n_type = ''EMERGENCY_ACCEPTED'',
                       n_title = ''Hospital Accepted Your Emergency'',
                       n_userId = patientId emergency, n_emergencyId = req_id emergency\<rparr>)
               (\<lambda>_.
             ret response)))))"

text \<open>\<open>HospitalService.updateEmergencyResponseStatus\<close>\<close>

definition updateEmergencyResponseStatus :: "env \<Rightarrow> ident \<Rightarrow> emergency_response action" where
  "updateEmergencyResponseStatus e responseId =
     await (emergencyResponse_findUnique e responseId) (\<lambda>emergencyResponse.
       case emergencyResponse of
         None \<Rightarrow> throw (NotFoundException ''Emergency response not found'')
       | Some emergencyResponse \<Rightarrow>
           if resp_status emergencyResponse \<noteq> ''ACCEPTED''
           then throw (BadRequestException
                  ''Emergency response must be in ACCEPTED state to update to IN_PROGRESS'')
           else
             tryCatch
               (await (emergencyResponse_update e responseId
                         (\<lambda>r. r\<lparr>resp_status := ''IN_PROGRESS''\<rparr>))
                  (\<lambda>updatedResponse.
                await (emergencyRequest_update e (emergencyRequestId emergencyResponse)
                         (\<lambda>r. r\<lparr>req_status := IN_PROGRESS\<rparr>))
                  (\<lambda>_.
                ret updatedResponse)))
               (\<lambda>error. throw (BadRequestException
                  (''Failed to update emergency response: '' @ message error))))"

text \<open>\<open>HospitalService.updateEmergencyResponseStatusManual\<close>\<close>

definition validStatuses :: "string list" where
  "validStatuses = [''ACCEPTED'', ''IN_PROGRESS'', ''COMPLETED'', ''CANCELLED'']"

definition updateEmergencyResponseStatusManual ::
  "env \<Rightarrow> ident \<Rightarrow> string \<Rightarrow> emergency_response action" where
  "updateEmergencyResponseStatusManual e responseId status =
     await (emergencyResponse_findUnique e responseId) (\<lambda>emergencyResponse.
       case emergencyResponse of
         None \<Rightarrow> throw (NotFoundException ''Emergency response not found'')
       | Some emergencyResponse \<Rightarrow>
           if status \<notin> set validStatuses
           then throw (BadRequestException
                  ''Invalid status. Valid statuses are: ACCEPTED, IN_PROGRESS, COMPLETED, CANCELLED'')
           else
             tryCatch
               (await (emergencyResponse_update e responseId (\<lambda>r. r\<lparr>resp_status := status\<rparr>))
                  (\<lambda>updatedResponse.
                await (emergencyRequest_update e (emergencyRequestId emergencyResponse)
                         (\<lambda>r. r\<lparr>req_status := status\<rparr>))
                  (\<lambda>_.
                ret updatedResponse)))
               (\<lambda>error. throw (BadRequestException
                  (''Failed to update emergency response: '' @ message error))))"

section \<open>Dashboard service\<close>

text \<open>\<open>DashboardService.getSeverity\<close>. A truthy value of type \<open>object\<close> is an object
  or an array; the \<open>catch\<close> turns a \<open>JSON.parse\<close> that throws into \<open>null\<close>.\<close>

definition getSeverity :: "env \<Rightarrow> json option \<Rightarrow> js_number option" where
  "getSeverity e info =
     (case info of
        None \<Rightarrow> None
      | Some mi \<Rightarrow>
          if \<not> truthy mi then None
          else (case mi of
                  JString str \<Rightarrow>
                    (case JSON_parse e str of
                       None \<Rightarrow> None
                     | Some parsed \<Rightarrow>
                         if truthy parsed \<and> property parsed ''severity'' \<noteq> None
                         then map_option (Number e) (property parsed ''severity'')
                         else None)
                | JObject props \<Rightarrow>
                    (case property mi ''severity'' of
                       Some (JNumber n) \<Rightarrow> Some n
                     | Some v \<Rightarrow> Some (Number e v)
                     | None \<Rightarrow> None)
                | JArray xs \<Rightarrow>
                    (case property mi ''severity'' of
                       Some (JNumber n) \<Rightarrow> Some n
                     | Some v \<Rightarrow> Some (Number e v)
                     | None \<Rightarrow> None)
                | _ \<Rightarrow> None))"

text \<open>The two reductions of \<open>getStats\<close> that are computed in application code.\<close>

definition criticalCases :: "env \<Rightarrow> emergency_request list \<Rightarrow> nat" where
  "criticalCases e emergenciesWithMedical =
     fold (\<lambda>em acc. acc + (if getSeverity e (medicalInfo em) = Some (Finite 4) then 1 else 0))
       emergenciesWithMedical 0"

text \<open>\<open>new Date(completion).getTime() - new Date(dispatch).getTime()\<close>: the difference of
  two time values, rounded as every difference of numbers is; \<open>None\<close> is \<open>NaN\<close>, which
  it is when one of the dates is invalid.\<close>

definition validTime :: "int \<Rightarrow> bool" where
  "validTime t = (\<bar>t\<bar> \<le> 8640000000000000)"

definition diffMs :: "int \<Rightarrow> int \<Rightarrow> rat option" where
  "diffMs completion dispatch =
     (if validTime completion \<and> validTime dispatch
      then Some (fl (of_int completion - of_int dispatch)) else None)"

text \<open>The loop over \<open>responseTimes\<close>: the sum of the minutes and the number of the rows
  that have both times and a difference that is a number. A \<open>Date\<close> is truthy, \<open>null\<close> is
  not. The count is a whole number below \<open>2 ^ 32\<close>, the bound on the length of an array,
  and so is exact.\<close>

fun responseTimesLoop :: "emergency_response list \<Rightarrow> rat \<times> nat \<Rightarrow> rat \<times> nat" where
  "responseTimesLoop [] (totalMinutes, validCount) = (totalMinutes, validCount)"
| "responseTimesLoop (r # rs) (totalMinutes, validCount) =
     (case (dispatchTime r, completionTime r) of
        (Some d, Some c) \<Rightarrow>
          (case diffMs c d of
             Some diff \<Rightarrow>
               responseTimesLoop rs
                 (fl (totalMinutes + fl (diff / (1000 * 60))), validCount + 1)
           | None \<Rightarrow> responseTimesLoop rs (totalMinutes, validCount))
      | _ \<Rightarrow> responseTimesLoop rs (totalMinutes, validCount))"

definition averageResponseTime :: "emergency_response list \<Rightarrow> rat" where
  "averageResponseTime responseTimes =
     (if length responseTimes > 0
      then (case responseTimesLoop responseTimes (0, 0) of
              (totalMinutes, validCount) \<Rightarrow>
                if validCount > 0 then fl (totalMinutes / of_nat validCount) else 0)
      else 0)"

text \<open>\<open>x.toFixed(2)\<close> prints, for \<open>x\<close> below \<open>10 ^ 21\<close> in absolute value, the digits of the
  integer \<open>n\<close> for which \<open>n / 100\<close> is nearest to \<open>x\<close>, the larger one of two that are
  equally near, the sign of \<open>x\<close> being set aside first: \<open>toFixedDigits\<close>. A larger \<open>x\<close> is
  printed as \<open>String(x)\<close> prints it. \<open>Number\<close> reads the string back as the double nearest
  to the decimal it shows, so \<open>String(x)\<close> is read back as \<open>x\<close>.\<close>

definition toFixedDigits :: "rat \<Rightarrow> int" where
  "toFixedDigits x =
     (if x < 0 then - \<lfloor>(- x) * 100 + 1 / 2\<rfloor> else \<lfloor>x * 100 + 1 / 2\<rfloor>)"

definition toFixed2 :: "rat \<Rightarrow> rat" where
  "toFixed2 x =
     (if 10 ^ 21 \<le> \<bar>x\<bar> then x else fl (of_int (toFixedDigits x) / 100))"

record stats =
  st_totalEmergencies :: nat
  st_activeEmergencies :: nat
  st_completedEmergencies :: nat
  st_activeTeams :: nat
  st_connectedHospitals :: nat
  st_criticalCases :: nat
  st_averageResponseTime :: rat
  st_availableHospitalBeds :: rat
  st_cancelledEmergencies :: nat

text \<open>\<open>DashboardService.getStats\<close>. The hospitals are selected without their
  \<open>medicalInfo\<close>, so \<open>getAvailableBeds\<close> is called on \<open>undefined\<close> for each of them and
  the sum of the beds stays 0.\<close>

definition getStats :: "env \<Rightarrow> stats action" where
  "getStats e =
     tryCatch
       (await (emergencyRequest_count e (\<lambda>r. True)) (\<lambda>totalEmergencies.
        await (emergencyRequest_count e
                 (\<lambda>r. req_status r \<in> set [PENDING, ASSIGNED, IN_PROGRESS])) (\<lambda>activeEmergencies.
        await (emergencyRequest_count e (\<lambda>r. req_status r = COMPLETED)) (\<lambda>completedEmergencies.
        await (organization_count e
                 (\<lambda>g. org_type g = ''RESCUE_TEAM'' \<and> org_status g = ''ACTIVE'')) (\<lambda>activeTeams.
        await (organization_count e
                 (\<lambda>g. org_type g = ''HOSPITAL'' \<and> org_status g = ''ACTIVE''))
          (\<lambda>connectedHospitalsCount.
        await (emergencyRequest_count e (\<lambda>r. req_status r = CANCELLED)) (\<lambda>cancelledEmergencies.
        await (emergencyResponse_findMany e (\<lambda>r. resp_status r = ''COMPLETED'')) (\<lambda>responseTimes.
        await (organization_findMany e
                 (\<lambda>g. org_type g = ''HOSPITAL'' \<and> org_status g = ''ACTIVE'')) (\<lambda>hospitalCapacities.
        await (emergencyRequest_findMany e) (\<lambda>emergenciesWithMedical.
        ret \<lparr>st_totalEmergencies = totalEmergencies,
             st_activeEmergencies = activeEmergencies,
             st_completedEmergencies = completedEmergencies,
             st_activeTeams = activeTeams,
             st_connectedHospitals = connectedHospitalsCount,
             st_criticalCases = criticalCases e emergenciesWithMedical,
             st_averageResponseTime = toFixed2 (averageResponseTime responseTimes),
             st_availableHospitalBeds = 0,
             st_cancelledEmergencies = cancelledEmergencies\<rparr>))))))))))
       (\<lambda>error. throw (InternalServerErrorException
          (''Cannot fetch dashboard stats: '' @ message error)))"

text \<open>\<open>DashboardService.assignCase\<close>. The request is read with its responses, which the
  method does not look at. The outer \<open>try/catch\<close> logs and rethrows.\<close>

definition assignCase :: "env \<Rightarrow> ident \<Rightarrow> ident \<Rightarrow> emergency_request action" where
  "assignCase e caseId assignedToId =
     await (emergencyRequest_findUnique_responses e caseId) (\<lambda>found.
       case found of
         None \<Rightarrow> throw (NotFoundException ''Emergency case not found'')
       | Some (emergency, responses) \<Rightarrow>
       if req_status emergency \<notin> set [PENDING, ASSIGNED, IN_PROGRESS]
       then throw (BadRequestException
              (''Emergency case can only be assigned if it is in PENDING, ASSIGNED, or IN_PROGRESS status. Current status: ''
                 @ req_status emergency))
       else
       await (organization_findUnique e assignedToId) (\<lambda>organization.
         case organization of
           None \<Rightarrow> throw (NotFoundException ''Organization not found'')
         | Some organization \<Rightarrow>
         if org_type organization \<notin> set [''RESCUE_TEAM'', ''HOSPITAL'']
         then throw (BadRequestException ''Only RESCUE_TEAM or HOSPITAL can be assigned to a case'')
         else
         await (emergencyResponse_create e
                  \<lparr>resp_id = 0, emergencyRequestId = caseId, organizationId = assignedToId,
                   resp_status = ''ASSIGNED'', dispatchTime = Some (now e),
                   completionTime = None, resp_notes = None, resp_createdAt = now e\<rparr>)
           (\<lambda>_.
         await (emergencyRequest_update e caseId (\<lambda>r. r\<lparr>req_status := ASSIGNED\<rparr>))
           (\<lambda>updatedEmergency.
         ret updatedEmergency))))"

text \<open>\<open>DashboardService.cancelCase\<close>. The outer \<open>try/catch\<close> logs and rethrows.\<close>

definition cancelCase :: "env \<Rightarrow> ident \<Rightarrow> emergency_request action" where
  "cancelCase e caseId =
     await (emergencyRequest_findUnique e caseId) (\<lambda>emergency.
       case emergency of
         None \<Rightarrow> throw (NotFoundException ''Emergency case not found'')
       | Some emergency \<Rightarrow>
           if req_status emergency = COMPLETED
           then throw (BadRequestException ''Completed emergency case cannot be cancelled'')
           else if req_status emergency = CANCELLED
           then throw (BadRequestException ''Emergency case is already cancelled'')
           else
             await (emergencyRequest_update e caseId (\<lambda>r. r\<lparr>req_status := CANCELLED\<rparr>))
               (\<lambda>updatedEmergency.
             await (tryCatch (broadcastStatsUpdated e) (\<lambda>gwErr. ret ()))
               (\<lambda>_.
             ret updatedEmergency)))"

section \<open>Reference definitions\<close>


text \<open>Every request of the store has a status of the enumeration.\<close>

definition requestStatusesValid :: "store \<Rightarrow> bool" where
  "requestStatusesValid s =
     (\<forall>r \<in> set (emergencyRequests s). req_status r \<in> set EmergencyStatus)"

text \<open>A method keeps a property of the store, whether it resolves or rejects.\<close>

definition preserves :: "(store \<Rightarrow> bool) \<Rightarrow> 'a action \<Rightarrow> bool" where
  "preserves P m = (\<forall>s. P s \<longrightarrow> P (snd (m s)))"



text \<open>
  The severity of a request in the words of the specification: the \<open>severity\<close> property,
  coerced to a number, of the medical information when that is an object, or of the object
  that a JSON string parses to; nothing when the medical information is absent or
  unparsable (the empty string is no JSON text) or has no such property.
\<close>

definition spec_severity :: "env \<Rightarrow> json option \<Rightarrow> js_number option" where
  "spec_severity e info =
     (case info of
        Some (JObject props) \<Rightarrow> map_option (Number e) (map_of props ''severity'')
      | Some (JString str) \<Rightarrow>
          (if str = [] then None
           else (case JSON_parse e str of
                   Some (JObject props) \<Rightarrow> map_option (Number e) (map_of props ''severity'')
                 | _ \<Rightarrow> None))
      | _ \<Rightarrow> None)"

text \<open>
  The average response time in the words of the specification: the responses that count
  are those with status COMPLETED and both timestamps (a timestamp that is an invalid date
  is not one), each contributes its completion time minus its dispatch time in minutes, and
  the statistic is their arithmetic mean, in exact arithmetic.
\<close>

definition spec_present :: "int option \<Rightarrow> bool" where
  "spec_present t = (case t of Some t \<Rightarrow> validTime t | None \<Rightarrow> False)"

definition spec_timed :: "emergency_response \<Rightarrow> bool" where
  "spec_timed r = (spec_present (dispatchTime r) \<and> spec_present (completionTime r))"

definition spec_counted :: "emergency_response \<Rightarrow> bool" where
  "spec_counted r = (resp_status r = COMPLETED \<and> spec_timed r)"

definition spec_minutes :: "emergency_response \<Rightarrow> rat" where
  "spec_minutes r =
     (case (dispatchTime r, completionTime r) of
        (Some d, Some c) \<Rightarrow> of_int (c - d) / 60000
      | _ \<Rightarrow> 0)"

definition spec_meanMinutes :: "emergency_response list \<Rightarrow> rat" where
  "spec_meanMinutes rs = sum_list (map spec_minutes rs) / of_nat (length rs)"

definition spec_meanResponseTime :: "emergency_response list \<Rightarrow> rat" where
  "spec_meanResponseTime rows = spec_meanMinutes (filter spec_counted rows)"

text \<open>The mean of the absolute values of the minutes, against which the rounding of the
  sum is measured; it is the mean itself when no completion precedes its dispatch.\<close>

definition spec_meanAbsMinutes :: "emergency_response list \<Rightarrow> rat" where
  "spec_meanAbsMinutes rs = sum_list (map (\<lambda>r. \<bar>spec_minutes r\<bar>) rs) / of_nat (length rs)"

text \<open>The unit roundoff of the doubles, and the smallest normal double.\<close>

definition u53 :: rat where
  "u53 = 1 / 2 ^ 53"

definition tau1022 :: rat where
  "tau1022 = 2 powi (- 1022)"

section \<open>Example stores\<close>

text \<open>An environment in which nothing fails, and others in which something does.\<close>

definition env0 :: env where
  "env0 = \<lparr>now = 1000, rejects = (\<lambda>c. False), notificationRejects = (\<lambda>n. False),
     gatewayRejects = False, JSON_parse = (\<lambda>str. None), StringToNumber = (\<lambda>str. NaN),
     NumberToString = (\<lambda>n. [])\<rparr>"

definition env_update_rejected :: env where
  "env_update_rejected = env0\<lparr>rejects := (\<lambda>c. c = EmergencyRequest_update)\<rparr>"



definition env_gateway_rejected :: env where
  "env_gateway_rejected = env0\<lparr>gatewayRejects := True\<rparr>"

definition env_nurse_notification_rejected :: env where
  "env_nurse_notification_rejected = env0\<lparr>notificationRejects := (\<lambda>n. n_userId n = 2)\<rparr>"

definition patient1 :: user where
  "patient1 = \<lparr>user_id = 1, firstName = ''Mali'', lastName = ''Suk'', user_role = PATIENT,
     user_status = ''ACTIVE'', user_organizationId = None\<rparr>"

definition nurse2 :: user where
  "nurse2 = \<lparr>user_id = 2, firstName = ''Nok'', lastName = ''Dee'', user_role = HOSPITAL,
     user_status = ''ACTIVE'', user_organizationId = Some 1\<rparr>"

definition hospital1 :: organization where
  "hospital1 = \<lparr>org_id = 1, org_name = ''General'', org_type = ''HOSPITAL'',
     org_status = ''ACTIVE'', availableBeds = Some 3, org_updatedAt = 0\<rparr>"

definition hospital2 :: organization where
  "hospital2 = \<lparr>org_id = 2, org_name = ''Riverside'', org_type = ''HOSPITAL'',
     org_status = ''ACTIVE'', availableBeds = Some 0, org_updatedAt = 0\<rparr>"

definition request1 :: emergency_request where
  "request1 = \<lparr>req_id = 1, req_status = PENDING, req_type = ''medical'',
     description = ''chest pain'', location = ''home'', latitude = 0, longitude = 0,
     medicalInfo = None, patientId = 1, updatedBy = None\<rparr>"

definition response1 :: emergency_response where
  "response1 = \<lparr>resp_id = 1, emergencyRequestId = 1, organizationId = 1,
     resp_status = ''ASSIGNED'', dispatchTime = None, completionTime = None,
     resp_notes = None, resp_createdAt = 0\<rparr>"

text \<open>One pending request, two hospitals with three beds and none, no response yet.\<close>

definition store0 :: store where
  "store0 = \<lparr>users = [patient1, nurse2], organizations = [hospital1, hospital2],
     emergencyRequests = [request1], emergencyResponses = [],
     notifications = [], broadcasts = []\<rparr>"

text \<open>The pending request already has a response of the first hospital.\<close>

definition store_linked :: store where
  "store_linked = store0\<lparr>emergencyResponses := [response1]\<rparr>"

text \<open>The request is assigned to the first hospital.\<close>

definition store_assigned :: store where
  "store_assigned = store0\<lparr>emergencyRequests := [request1\<lparr>req_status := ASSIGNED\<rparr>],
      emergencyResponses := [response1]\<rparr>"

definition store_completed :: store where
  "store_completed = store0\<lparr>emergencyRequests := [request1\<lparr>req_status := COMPLETED\<rparr>]\<rparr>"

definition store_cancelled :: store where
  "store_cancelled = store0\<lparr>emergencyRequests := [request1\<lparr>req_status := CANCELLED\<rparr>]\<rparr>"

text \<open>Two completed responses: one took five minutes, the other has no completion time.\<close>

definition response_five_minutes :: emergency_response where
  "response_five_minutes = response1\<lparr>resp_status := COMPLETED, dispatchTime := Some 60000,
     completionTime := Some (60000 + 5 * 60 * 1000)\<rparr>"

definition response_open :: emergency_response where
  "response_open = response1\<lparr>resp_id := 2, organizationId := 2, resp_status := COMPLETED,
     dispatchTime := Some 90000\<rparr>"

definition store_times :: store where
  "store_times = store0\<lparr>emergencyResponses := [response_five_minutes, response_open]\<rparr>"

text \<open>One completed response that took seven and a half seconds, an eighth of a minute.\<close>

definition store_eighth :: store where
  "store_eighth = store0\<lparr>emergencyResponses :=
     [response1\<lparr>resp_status := COMPLETED, dispatchTime := Some 0, completionTime := Some 7500\<rparr>]\<rparr>"

text \<open>One completed response that took 60.3 seconds: 1.005 minutes, a number that is not
  a double; the double nearest to it lies below it.\<close>

definition store_minute :: store where
  "store_minute = store0\<lparr>emergencyResponses :=
     [response1\<lparr>resp_status := COMPLETED, dispatchTime := Some 0, completionTime := Some 60300\<rparr>]\<rparr>"

text \<open>Four requests: severity 4, severity 5, no medical information, and a string that
  does not parse.\<close>

definition store_severities :: store where
  "store_severities = store0\<lparr>emergencyRequests :=
     [request1\<lparr>medicalInfo := Some (JObject [(''severity'', JNumber (Finite 4))])\<rparr>,
      request1\<lparr>req_id := 2, medicalInfo := Some (JObject [(''severity'', JNumber (Finite 5))])\<rparr>,
      request1\<lparr>req_id := 3\<rparr>,
      request1\<lparr>req_id := 4, medicalInfo := Some (JString ''{severity'')\<rparr>]\<rparr>"


section \<open>Properties\<close>

subsection \<open>Auxiliary facts\<close>

lemmas effects = prisma_def ret_def throw_def await_def tryCatch_def emit_def

lemma storeAvailable_env0: "storeAvailable env0"
  by (simp add: storeAvailable_def env0_def)

lemma notificationsDelivered_env0: "notificationsDelivered env0"
  by (simp add: notificationsDelivered_def env0_def)

lemma find_key: "find (\<lambda>r. k r = i) xs = Some r \<Longrightarrow> k r = i"
  by (auto simp: find_Some_iff)

lemma find_map_update:
  assumes "find (\<lambda>r. k r = i) xs = Some r" and "k (f r) = i"
  shows "find (\<lambda>r. k r = i) (map (\<lambda>r. if k r = i then f r else r) xs) = Some (f r)"
  using assms by (induction xs) (auto split: if_splits)




text \<open>The notification loop when the writer accepts every row, and in general: it stops at
  the first row that the writer rejects, the rows before it having been written.\<close>

lemma forEach_createNotification:
  "notificationsDelivered e \<Longrightarrow>
   forEach xs (\<lambda>u. createNotification e (f u)) s
     = (Inr (), s\<lparr>notifications := notifications s @ map f xs\<rparr>)"
  by (induction xs arbitrary: s)
     (auto simp: ret_def await_def createNotification_def notificationsDelivered_def)

lemma createNotification_cases:
  "notificationRejects e n \<Longrightarrow>
     createNotification e n s = (Inl (Error ''Notification rejected''), s)"
  "\<not> notificationRejects e n \<Longrightarrow>
     createNotification e n s = (Inr (), s\<lparr>notifications := notifications s @ [n]\<rparr>)"
  by (simp_all add: createNotification_def)









subsection \<open>Cancelling a case\<close>

text \<open>
  Claim C7. While the store is available, \<open>cancelCase\<close> on a request whose status is
  COMPLETED fails with a Validation error, and so it does on a request that is already
  CANCELLED, the store staying as it was; on a request whose status is PENDING it succeeds,
  returns the request with status CANCELLED, and that is the row the store then holds.
\<close>

theorem cancelCase_rejects_terminal_cancels_pending:
  assumes "storeAvailable e"
    and "find (\<lambda>r. req_id r = caseId) (emergencyRequests s) = Some r"
  shows "(req_status r = COMPLETED \<longrightarrow>
            (\<exists>err. cancelCase e caseId s = (Inl err, s) \<and> classify err = Validation))
       \<and> (req_status r = CANCELLED \<longrightarrow>
            (\<exists>err. cancelCase e caseId s = (Inl err, s) \<and> classify err = Validation))
       \<and> (req_status r = PENDING \<longrightarrow>
            (\<exists>s'. cancelCase e caseId s = (Inr (r\<lparr>req_status := CANCELLED\<rparr>), s')
                \<and> find (\<lambda>r. req_id r = caseId) (emergencyRequests s')
                    = Some (r\<lparr>req_status := CANCELLED\<rparr>)))"
proof -
  have rid: "req_id r = caseId"
    using assms(2) by (rule find_key)
  have avail: "\<And>c. \<not> rejects e c"
    using assms(1) by (simp add: storeAvailable_def)
  show ?thesis
    using assms(2) rid avail
    by (auto simp: cancelCase_def emergencyRequest_findUnique_def emergencyRequest_update_def
          broadcastStatsUpdated_def effects find_map_update)
qed

text \<open>The three cases of C7 on the example stores.\<close>

theorem cancelCase_rejects_terminal_cancels_pending_witness:
  "storeAvailable env0
   \<and> (\<exists>err. cancelCase env0 1 store_completed = (Inl err, store_completed)
          \<and> classify err = Validation)
   \<and> (\<exists>err. cancelCase env0 1 store_cancelled = (Inl err, store_cancelled)
          \<and> classify err = Validation)
   \<and> (\<exists>s'. cancelCase env0 1 store0 = (Inr (request1\<lparr>req_status := CANCELLED\<rparr>), s')
          \<and> find (\<lambda>r. req_id r = 1) (emergencyRequests s')
              = Some (request1\<lparr>req_status := CANCELLED\<rparr>))"
proof -
  have completed: "find (\<lambda>r. req_id r = 1) (emergencyRequests store_completed)
                     = Some (request1\<lparr>req_status := COMPLETED\<rparr>)"
    by (simp add: store_completed_def request1_def)
  have cancelled: "find (\<lambda>r. req_id r = 1) (emergencyRequests store_cancelled)
                     = Some (request1\<lparr>req_status := CANCELLED\<rparr>)"
    by (simp add: store_cancelled_def request1_def)
  have pending: "find (\<lambda>r. req_id r = 1) (emergencyRequests store0) = Some request1"
    by (simp add: store0_def request1_def)
  have "req_status request1 = PENDING"
    by (simp add: request1_def)
  then show ?thesis
    using cancelCase_rejects_terminal_cancels_pending[OF storeAvailable_env0 completed]
      cancelCase_rejects_terminal_cancels_pending[OF storeAvailable_env0 cancelled]
      cancelCase_rejects_terminal_cancels_pending[OF storeAvailable_env0 pending]
      storeAvailable_env0
    by simp
qed

subsection \<open>Assigning a request to a hospital\<close>

text \<open>
  Claim C3. While the store is available, \<open>assignToHospital\<close> of an existing request to a
  hospital whose \<open>availableBeds\<close> is absent, zero or negative fails with a Validation error
  and leaves the store as it was: the request and the hospital are unchanged and no
  response row exists that did not exist before.
\<close>

theorem assignToHospital_no_beds:
  assumes "storeAvailable e"
    and "find (\<lambda>r. req_id r = emergencyId) (emergencyRequests s) = Some r"
    and "find (\<lambda>h. org_id h = hospitalId) (organizations s) = Some h"
    and "org_type h = ''HOSPITAL''"
    and "availableBeds h = None \<or> (\<exists>beds. availableBeds h = Some beds \<and> beds \<le> 0)"
  shows "\<exists>err. assignToHospital e emergencyId hospitalId userId s = (Inl err, s)
              \<and> classify err = Validation"
proof -
  have avail: "\<And>c. \<not> rejects e c"
    using assms(1) by (simp add: storeAvailable_def)
  show ?thesis
    using assms(2-5) avail
    by (auto simp: assignToHospital_def transaction_def emergencyRequest_findUnique_responses_def
          emergencyRequest_update_def organization_findUnique_def effects Let_def
          split: option.splits)
qed

text \<open>C3 on the example store: the second hospital has no bed.\<close>

theorem assignToHospital_no_beds_witness:
  "storeAvailable env0
   \<and> find (\<lambda>r. req_id r = 1) (emergencyRequests store0) = Some request1
   \<and> find (\<lambda>h. org_id h = 2) (organizations store0) = Some hospital2
   \<and> org_type hospital2 = ''HOSPITAL''
   \<and> availableBeds hospital2 = Some 0
   \<and> (\<exists>err. assignToHospital env0 1 2 9 store0 = (Inl err, store0)
          \<and> classify err = Validation)"
proof -
  have r: "find (\<lambda>r. req_id r = 1) (emergencyRequests store0) = Some request1"
    by (simp add: store0_def request1_def)
  have h: "find (\<lambda>h. org_id h = 2) (organizations store0) = Some hospital2"
    by (simp add: store0_def hospital1_def hospital2_def)
  have t: "org_type hospital2 = ''HOSPITAL''"
    by (simp add: hospital2_def)
  have b: "availableBeds hospital2 = Some 0"
    by (simp add: hospital2_def)
  then have b': "availableBeds hospital2 = None
                 \<or> (\<exists>beds. availableBeds hospital2 = Some beds \<and> beds \<le> 0)"
    by simp
  show ?thesis
    using assignToHospital_no_beds[OF storeAvailable_env0 r h t b', of 9]
      storeAvailable_env0 r h t b
    by simp
qed

text \<open>
  Claim C2, as stated: every pending request and every hospital with three beds. A
  pending request that already has a response of the hospital is turned away, whatever
  the beds: on \<open>store_linked\<close> the request is pending and the hospital has three beds, and
  the assignment fails.
\<close>

theorem assignToHospital_pending_linked_rejected:
  "map req_status (emergencyRequests store_linked) = [PENDING]
   \<and> map availableBeds (organizations store_linked) = [Some 3, Some 0]
   \<and> assignToHospital env0 1 1 9 store_linked
       = (Inl (BadRequestException ''This case has already been assigned to this hospital''),
          store_linked)"
  by code_simp

text \<open>
  Claim C2, amended. While the store is available and the notification writer accepts
  every row, \<open>assignToHospital\<close> of a request with status PENDING to a hospital with
  \<open>availableBeds = 3\<close>, no response row linking the two so far, succeeds; afterwards the
  request has status ASSIGNED, the hospital has two beds, and the responses are those of
  before and one new row, which links the request to the hospital with status ASSIGNED.
\<close>

theorem assignToHospital_pending_three_beds:
  assumes "storeAvailable e" and "notificationsDelivered e"
    and "find (\<lambda>r. req_id r = emergencyId) (emergencyRequests s) = Some r"
    and "req_status r = PENDING"
    and "find (\<lambda>h. org_id h = hospitalId) (organizations s) = Some h"
    and "org_type h = ''HOSPITAL''"
    and "availableBeds h = Some 3"
    and "filter (\<lambda>p. emergencyRequestId p = emergencyId \<and> organizationId p = hospitalId)
           (emergencyResponses s) = []"
  shows "\<exists>s' new.
           assignToHospital e emergencyId hospitalId userId s
             = (Inr (r\<lparr>req_status := ASSIGNED, updatedBy := Some userId\<rparr>), s')
         \<and> find (\<lambda>r. req_id r = emergencyId) (emergencyRequests s')
             = Some (r\<lparr>req_status := ASSIGNED, updatedBy := Some userId\<rparr>)
         \<and> find (\<lambda>h. org_id h = hospitalId) (organizations s')
             = Some (h\<lparr>availableBeds := Some 2, org_updatedAt := now e\<rparr>)
         \<and> emergencyResponses s' = emergencyResponses s @ [new]
         \<and> emergencyRequestId new = emergencyId \<and> organizationId new = hospitalId
         \<and> resp_status new = ''ASSIGNED''"
proof -
  have avail: "\<And>c. \<not> rejects e c"
    using assms(1) by (simp add: storeAvailable_def)
  have nolink: "find (\<lambda>r. organizationId r = hospitalId)
                  (filter (\<lambda>p. emergencyRequestId p = emergencyId) (emergencyResponses s)) = None"
    using assms(8) by (auto simp: find_None_iff filter_empty_conv)
  have rid: "req_id r = emergencyId" using assms(3) by (rule find_key)
  have hid: "org_id h = hospitalId" using assms(5) by (rule find_key)
  show ?thesis
    using assms(3-7) avail nolink rid hid
    by (simp add: assignToHospital_def transaction_def emergencyRequest_findUnique_responses_def
          emergencyRequest_update_def organization_findUnique_def organization_update_def
          emergencyResponse_create_def user_findMany_def createNotification_def
          forEach_createNotification[OF assms(2)] effects Let_def find_map_update
          assms(2)[unfolded notificationsDelivered_def])
qed

text \<open>The amended C2 on the example store: the first hospital has three beds.\<close>

theorem assignToHospital_pending_three_beds_witness:
  "storeAvailable env0 \<and> notificationsDelivered env0
   \<and> find (\<lambda>r. req_id r = 1) (emergencyRequests store0) = Some request1
   \<and> req_status request1 = PENDING
   \<and> find (\<lambda>h. org_id h = 1) (organizations store0) = Some hospital1
   \<and> org_type hospital1 = ''HOSPITAL''
   \<and> availableBeds hospital1 = Some 3
   \<and> filter (\<lambda>p. emergencyRequestId p = 1 \<and> organizationId p = 1) (emergencyResponses store0) = []
   \<and> (\<exists>s' new.
         assignToHospital env0 1 1 9 store0
           = (Inr (request1\<lparr>req_status := ASSIGNED, updatedBy := Some 9\<rparr>), s')
       \<and> find (\<lambda>r. req_id r = 1) (emergencyRequests s')
           = Some (request1\<lparr>req_status := ASSIGNED, updatedBy := Some 9\<rparr>)
       \<and> find (\<lambda>h. org_id h = 1) (organizations s')
           = Some (hospital1\<lparr>availableBeds := Some 2, org_updatedAt := now env0\<rparr>)
       \<and> emergencyResponses s' = emergencyResponses store0 @ [new]
       \<and> emergencyRequestId new = 1 \<and> organizationId new = 1
       \<and> resp_status new = ''ASSIGNED'')"
proof -
  have r: "find (\<lambda>r. req_id r = 1) (emergencyRequests store0) = Some request1"
    by (simp add: store0_def request1_def)
  have p: "req_status request1 = PENDING"
    by (simp add: request1_def)
  have h: "find (\<lambda>h. org_id h = 1) (organizations store0) = Some hospital1"
    by (simp add: store0_def hospital1_def)
  have t: "org_type hospital1 = ''HOSPITAL''"
    by (simp add: hospital1_def)
  have b: "availableBeds hospital1 = Some 3"
    by (simp add: hospital1_def)
  have n: "filter (\<lambda>p. emergencyRequestId p = 1 \<and> organizationId p = 1)
             (emergencyResponses store0) = []"
    by (simp add: store0_def)
  from assignToHospital_pending_three_beds
         [OF storeAvailable_env0 notificationsDelivered_env0 r p h t b n, of 9]
  show ?thesis
    using storeAvailable_env0 notificationsDelivered_env0 r p h t b n by simp
qed

text \<open>The store of the counterexample arises from the example store by an assignment to
  a hospital with four beds and a status update back to PENDING.\<close>

lemma pending_and_linked_is_reachable:
  "emergencyResponses
     (snd (updateStatus env0 1 PENDING
        (snd (assignToHospital env0 1 1 9
           (store0\<lparr>organizations := [hospital1\<lparr>availableBeds := Some 4\<rparr>, hospital2]\<rparr>)))))
     = [response1\<lparr>resp_createdAt := 1000\<rparr>]
   \<and> map req_status (emergencyRequests
     (snd (updateStatus env0 1 PENDING
        (snd (assignToHospital env0 1 1 9
           (store0\<lparr>organizations := [hospital1\<lparr>availableBeds := Some 4\<rparr>, hospital2]\<rparr>))))))
     = [PENDING]
   \<and> map availableBeds (organizations
     (snd (updateStatus env0 1 PENDING
        (snd (assignToHospital env0 1 1 9
           (store0\<lparr>organizations := [hospital1\<lparr>availableBeds := Some 4\<rparr>, hospital2]\<rparr>))))))
     = [Some 3, Some 0]"
  by code_simp

text \<open>The hospital path turns away every request that already has a response of the
  hospital, whatever its status.\<close>

lemma assignToHospital_rejects_linked:
  assumes "storeAvailable e"
    and "find (\<lambda>r. req_id r = emergencyId) (emergencyRequests s) = Some r"
    and "p \<in> set (emergencyResponses s)"
    and "emergencyRequestId p = emergencyId" and "organizationId p = hospitalId"
  shows "assignToHospital e emergencyId hospitalId userId s
           = (Inl (BadRequestException ''This case has already been assigned to this hospital''), s)"
proof -
  have avail: "\<And>c. \<not> rejects e c"
    using assms(1) by (simp add: storeAvailable_def)
  have "find (\<lambda>r. organizationId r = hospitalId)
          (filter (\<lambda>p. emergencyRequestId p = emergencyId) (emergencyResponses s)) \<noteq> None"
    using assms(3-5) by (auto simp: find_None_iff)
  then show ?thesis
    using assms(2) avail
    by (auto simp: assignToHospital_def transaction_def emergencyRequest_findUnique_responses_def
          effects)
qed

text \<open>
  Claim C4 at a failing input. The request of \<open>store_assigned\<close> has a response of
  organization 1. \<open>assignCase\<close> of that request to organization 1 does not fail: it
  resolves to the request, and the store then holds two response rows for the same pair.
\<close>

theorem assignCase_links_pair_twice:
  "map emergencyRequestId (emergencyResponses store_assigned) = [1]
   \<and> map organizationId (emergencyResponses store_assigned) = [1]
   \<and> fst (assignCase env0 1 1 store_assigned) = Inr (request1\<lparr>req_status := ASSIGNED\<rparr>)
   \<and> map emergencyRequestId (emergencyResponses (snd (assignCase env0 1 1 store_assigned)))
       = [1, 1]
   \<and> map organizationId (emergencyResponses (snd (assignCase env0 1 1 store_assigned)))
       = [1, 1]"
  by code_simp

subsection \<open>The status of a request\<close>

text \<open>
  The status invariant, method by method: rules for the combinators, then the calls of the
  store, then the methods. Every method keeps the invariant, \<open>updateStatus\<close> when it is
  given a member of the enumeration and the manual update of a response for each of its
  valid statuses but \<open>ACCEPTED\<close>.
\<close>

lemma preserves_ret: "preserves P (ret x)"
  by (simp add: preserves_def ret_def)

lemma preserves_throw: "preserves P (throw x)"
  by (simp add: preserves_def throw_def)

lemma preserves_await:
  assumes "preserves P m" and "\<And>x. preserves P (f x)"
  shows "preserves P (await m f)"
  using assms by (fastforce simp: preserves_def await_def split: prod.splits sum.splits)

lemma preserves_tryCatch:
  assumes "preserves P m" and "\<And>x. preserves P (h x)"
  shows "preserves P (tryCatch m h)"
  using assms by (fastforce simp: preserves_def tryCatch_def split: prod.splits sum.splits)

lemma preserves_forEach:
  assumes "\<And>x. preserves P (f x)"
  shows "preserves P (forEach xs f)"
  by (induction xs) (auto intro: preserves_ret preserves_await assms)

lemma preserves_transaction:
  assumes "preserves requestStatusesValid body"
  shows "preserves requestStatusesValid (transaction body)"
  using assms
  by (fastforce simp: preserves_def transaction_def requestStatusesValid_def
        split: prod.splits sum.splits)

lemma preserves_other_tables:
  assumes "\<And>s. emergencyRequests (snd (m s)) = emergencyRequests s"
  shows "preserves requestStatusesValid m"
  using assms by (simp add: preserves_def requestStatusesValid_def)

lemma preserves_reads:
  "preserves requestStatusesValid (emergencyRequest_findUnique e i)"
  "preserves requestStatusesValid (emergencyRequest_findUnique_responses e i)"
  "preserves requestStatusesValid (emergencyRequest_findUnique_responses_users e i)"
  "preserves requestStatusesValid (emergencyResponse_findUnique e i)"
  "preserves requestStatusesValid (organization_findUnique e i)"
  "preserves requestStatusesValid (organization_findFirst e wo)"
  "preserves requestStatusesValid (user_findMany e wu)"
  by (rule preserves_other_tables;
      simp add: emergencyRequest_findUnique_def emergencyRequest_findUnique_responses_def
        emergencyRequest_findUnique_responses_users_def emergencyResponse_findUnique_def
        organization_findUnique_def organization_findFirst_def user_findMany_def prisma_def)+

lemma preserves_other_writes:
  "preserves requestStatusesValid (emergencyResponse_create e d)"
  "preserves requestStatusesValid (emergencyResponse_update e i g)"
  "preserves requestStatusesValid (organization_update e i h)"
  "preserves requestStatusesValid (createNotification e n)"
  "preserves requestStatusesValid (emit b)"
  "preserves requestStatusesValid (broadcastStatsUpdated e)"
  by (rule preserves_other_tables;
      simp add: emergencyResponse_create_def emergencyResponse_update_def
        organization_update_def createNotification_def emit_def broadcastStatsUpdated_def
        throw_def prisma_def Let_def split: option.splits)+

lemma preserves_emergencyRequest_update:
  assumes "\<And>r. req_status (f r) \<in> set EmergencyStatus"
  shows "preserves requestStatusesValid (emergencyRequest_update e i f)"
  using assms
  by (auto simp: preserves_def requestStatusesValid_def emergencyRequest_update_def prisma_def
        split: option.splits)

lemma preserves_emergencyRequest_create:
  assumes "req_status d \<in> set EmergencyStatus"
  shows "preserves requestStatusesValid (emergencyRequest_create e d)"
  using assms
  by (auto simp: preserves_def requestStatusesValid_def emergencyRequest_create_def prisma_def
        Let_def split: option.splits)

lemmas preserves_rules = preserves_ret preserves_throw preserves_await preserves_tryCatch
  preserves_forEach preserves_transaction preserves_emergencyRequest_update
  preserves_emergencyRequest_create preserves_reads preserves_other_writes

lemma createEmergencyRequest_preserves:
  "preserves requestStatusesValid (createEmergencyRequest e dto userId)"
  unfolding createEmergencyRequest_def Let_def
  by (auto intro!: preserves_rules simp: EmergencyStatus_def split: option.splits)

lemma assignToHospital_preserves:
  "preserves requestStatusesValid (assignToHospital e emergencyId hospitalId userId)"
  unfolding assignToHospital_def Let_def
  by (auto intro!: preserves_rules simp: EmergencyStatus_def split: option.splits)

lemma updateStatus_preserves:
  "status \<in> set EmergencyStatus \<Longrightarrow> preserves requestStatusesValid (updateStatus e i status)"
  unfolding updateStatus_def
  by (auto intro!: preserves_rules simp: EmergencyStatus_def split: option.splits)

lemma assignCase_preserves:
  "preserves requestStatusesValid (assignCase e caseId assignedToId)"
  unfolding assignCase_def
  by (auto intro!: preserves_rules simp: EmergencyStatus_def split: option.splits)

lemma cancelCase_preserves: "preserves requestStatusesValid (cancelCase e caseId)"
  unfolding cancelCase_def
  by (auto intro!: preserves_rules simp: EmergencyStatus_def split: option.splits)

lemma acceptEmergency_preserves:
  "preserves requestStatusesValid (acceptEmergency e hospitalId emergencyId notes)"
  unfolding acceptEmergency_def findOne_def
  by (auto intro!: preserves_rules simp: EmergencyStatus_def split: option.splits)

lemma updateEmergencyResponseStatus_preserves:
  "preserves requestStatusesValid (updateEmergencyResponseStatus e responseId)"
  unfolding updateEmergencyResponseStatus_def
  by (auto intro!: preserves_rules simp: EmergencyStatus_def split: option.splits)

lemma updateEmergencyResponseStatusManual_preserves:
  "status \<noteq> ''ACCEPTED'' \<Longrightarrow>
   preserves requestStatusesValid (updateEmergencyResponseStatusManual e responseId status)"
  unfolding updateEmergencyResponseStatusManual_def
  by (auto intro!: preserves_rules simp: EmergencyStatus_def validStatuses_def
        split: option.splits)

text \<open>
  Claim C1 at a failing input. On \<open>store_assigned\<close> the manual update of response 1 to
  \<open>ACCEPTED\<close>, one of its four valid statuses, succeeds and writes \<open>ACCEPTED\<close> into the
  request as well, which is no member of \<open>EmergencyStatus\<close>.
\<close>

theorem manual_update_writes_ACCEPTED_into_request:
  "fst (updateEmergencyResponseStatusManual env0 1 ''ACCEPTED'' store_assigned)
     = Inr (response1\<lparr>resp_status := ''ACCEPTED''\<rparr>)
   \<and> map req_status (emergencyRequests
        (snd (updateEmergencyResponseStatusManual env0 1 ''ACCEPTED'' store_assigned)))
       = [''ACCEPTED'']
   \<and> ''ACCEPTED'' \<notin> set EmergencyStatus"
  by code_simp

subsection \<open>Atomicity\<close>

text \<open>
  Claim C5 at a failing input. The store rejects the update of the request. \<open>assignCase\<close>
  has created the response row by then and rejects; the row stays, next to a request that
  is still PENDING. \<open>acceptEmergency\<close> does the same with its ACCEPTED row. (Under
  \<open>assignToHospital\<close> and \<open>updateStatus\<close> the tables are as before whenever the method
  rejects: \<open>assignToHospital_atomic\<close>, \<open>updateStatus_atomic\<close>.)
\<close>

theorem assignCase_keeps_response_when_update_rejects:
  "emergencyResponses store0 = []
   \<and> fst (assignCase env_update_rejected 1 1 store0) = Inl (Error ''Prisma call rejected'')
   \<and> map resp_status (emergencyResponses (snd (assignCase env_update_rejected 1 1 store0)))
       = [''ASSIGNED'']
   \<and> map req_status (emergencyRequests (snd (assignCase env_update_rejected 1 1 store0)))
       = [PENDING]
   \<and> fst (acceptEmergency env_update_rejected 1 1 None store0)
       = Inl (Error ''Prisma call rejected'')
   \<and> map resp_status
        (emergencyResponses (snd (acceptEmergency env_update_rejected 1 1 None store0)))
       = [''ACCEPTED'']
   \<and> map req_status
        (emergencyRequests (snd (acceptEmergency env_update_rejected 1 1 None store0)))
       = [PENDING]"
  by code_simp

subsection \<open>Failing side effects\<close>






text \<open>The two failures one at a time on the example store: only the gateway rejects, and
  only the notification of the nurse of the hospital is rejected.\<close>

lemma cancelCase_gateway_rejected_example:
  "cancelCase env_gateway_rejected 1 store0
     = (Inr (request1\<lparr>req_status := CANCELLED\<rparr>),
        store0\<lparr>emergencyRequests := [request1\<lparr>req_status := CANCELLED\<rparr>]\<rparr>)"
  by code_simp

lemma assignToHospital_nurse_notification_rejected_example:
  "assignToHospital env_nurse_notification_rejected 1 1 9 store0
     = (Inl (Error ''Notification rejected''), store0)"
  by code_simp




subsection \<open>Dashboard statistics\<close>

text \<open>What \<open>getStats\<close> resolves to while the store is available.\<close>

lemma getStats_available:
  assumes "storeAvailable e"
  shows "getStats e s =
     (Inr \<lparr>st_totalEmergencies = length (emergencyRequests s),
            st_activeEmergencies =
              length (filter (\<lambda>r. req_status r \<in> set [PENDING, ASSIGNED, IN_PROGRESS])
                        (emergencyRequests s)),
            st_completedEmergencies =
              length (filter (\<lambda>r. req_status r = COMPLETED) (emergencyRequests s)),
            st_activeTeams =
              length (filter (\<lambda>g. org_type g = ''RESCUE_TEAM'' \<and> org_status g = ''ACTIVE'')
                        (organizations s)),
            st_connectedHospitals =
              length (filter (\<lambda>g. org_type g = ''HOSPITAL'' \<and> org_status g = ''ACTIVE'')
                        (organizations s)),
            st_criticalCases = criticalCases e (emergencyRequests s),
            st_averageResponseTime =
              toFixed2 (averageResponseTime
                 (filter (\<lambda>r. resp_status r = COMPLETED) (emergencyResponses s))),
            st_availableHospitalBeds = 0,
            st_cancelledEmergencies =
              length (filter (\<lambda>r. req_status r = CANCELLED) (emergencyRequests s))\<rparr>, s)"
proof -
  have avail: "\<And>c. \<not> rejects e c"
    using assms by (simp add: storeAvailable_def)
  show ?thesis
    by (simp add: getStats_def emergencyRequest_count_def organization_count_def
          emergencyResponse_findMany_def organization_findMany_def
          emergencyRequest_findMany_def effects avail)
qed

text \<open>The rounding of doubles: \<open>ilog2\<close> is the exponent, and \<open>fl x\<close> lies within half a
  quantum of \<open>x\<close>, which is at most \<open>2 powi (- 53)\<close> of \<open>x\<close> for a normal number.\<close>

lemma ilog2_le:
  assumes "0 < x"
  shows "2 powi (ilog2 x) \<le> x"
proof -
  obtain p q where pq: "quotient_of x = (p, q)" by (cases "quotient_of x")
  then have x: "x = of_int p / of_int q" and q: "0 < q"
    by (auto dest: quotient_of_div quotient_of_denom_pos)
  with assms have p: "0 < p"
    by (simp add: zero_less_divide_iff)
  let ?d = "bitlen p - bitlen q"
  show ?thesis
  proof (cases "2 powi ?d \<le> x")
    case True
    then show ?thesis by (simp add: ilog2_def pq)
  next
    case False
    have bp: "1 \<le> bitlen p" and bq: "1 \<le> bitlen q"
      using p q by (auto simp: bitlen_alt_def)
    have "(2::int) ^ nat (bitlen p - 1) \<le> p"
      using bitlen_bounds[OF p] by simp
    then have "(of_int ((2::int) ^ nat (bitlen p - 1)) :: rat) \<le> of_int p"
      by (simp only: of_int_le_iff)
    then have lo: "(2::rat) powi (bitlen p - 1) \<le> of_int p"
      using bp by (simp add: power_int_def)
    have "q < 2 ^ nat (bitlen q)"
      using bitlen_bounds[OF q] by simp
    then have "(of_int q :: rat) < of_int ((2::int) ^ nat (bitlen q))"
      by (simp only: of_int_less_iff)
    then have hi: "of_int q \<le> (2::rat) powi (bitlen q)"
      using bq by (simp add: power_int_def)
    have "(2::rat) powi (?d - 1) = 2 powi (bitlen p - 1) / 2 powi (bitlen q)"
      by (simp add: power_int_diff)
    also have "\<dots> \<le> of_int p / of_int q"
      using lo hi q p by (intro frac_le) auto
    also have "\<dots> = x" by (simp add: x)
    finally show ?thesis
      using False by (simp add: ilog2_def pq)
  qed
qed

lemma rne_error: "\<bar>of_int (rne y) - y\<bar> \<le> 1 / 2"
proof -
  have "of_int \<lfloor>y\<rfloor> \<le> y" "y < of_int \<lfloor>y\<rfloor> + 1"
    by linarith+
  then show ?thesis
    by (auto simp: rne_def Let_def abs_le_iff)
qed

lemma quantum_pos: "0 < quantum x"
  by (simp add: quantum_def)

lemma fl_error: "\<bar>fl x - x\<bar> \<le> (\<bar>x\<bar> + 2 powi (- 1022)) / 2 ^ 53"
proof (cases "x = 0")
  case True
  then show ?thesis by (simp add: fl_def)
next
  case False
  let ?q = "quantum x"
  have q: "0 < ?q" by (rule quantum_pos)
  have "fl x - x = (of_int (rne (x / ?q)) - x / ?q) * ?q"
    using False q by (simp add: fl_def left_diff_distrib)
  then have "\<bar>fl x - x\<bar> = \<bar>of_int (rne (x / ?q)) - x / ?q\<bar> * ?q"
    using q by (simp add: abs_mult)
  also have "\<dots> \<le> 1 / 2 * ?q"
    using rne_error[of "x / ?q"] q by (intro mult_right_mono) auto
  also have "?q = 2 powi (max (ilog2 \<bar>x\<bar>) (- 1022)) / 2 ^ 52"
    by (simp add: quantum_def power_int_diff)
  also have "2 powi (max (ilog2 \<bar>x\<bar>) (- 1022)) \<le> \<bar>x\<bar> + 2 powi (- 1022)"
  proof -
    have "2 powi (ilog2 \<bar>x\<bar>) \<le> \<bar>x\<bar>"
      using False by (intro ilog2_le) simp
    moreover have "(0::rat) < 2 powi (- 1022)" by simp
    ultimately show ?thesis
      by (cases "ilog2 \<bar>x\<bar> \<le> - 1022") (simp_all add: max_def)
  qed
  finally show ?thesis
    by (simp add: divide_right_mono)
qed

lemma ilog2_less:
  assumes "0 < x"
  shows "x < 2 powi (ilog2 x + 1)"
proof -
  obtain p q where pq: "quotient_of x = (p, q)" by (cases "quotient_of x")
  then have x: "x = of_int p / of_int q" and q: "0 < q"
    by (auto dest: quotient_of_div quotient_of_denom_pos)
  with assms have p: "0 < p"
    by (simp add: zero_less_divide_iff)
  let ?d = "bitlen p - bitlen q"
  show ?thesis
  proof (cases "2 powi ?d \<le> x")
    case False
    then show ?thesis by (simp add: ilog2_def pq)
  next
    case True
    have bp: "1 \<le> bitlen p" and bq: "1 \<le> bitlen q"
      using p q by (auto simp: bitlen_alt_def)
    have "p < 2 ^ nat (bitlen p)"
      using bitlen_bounds[OF p] by simp
    then have "(of_int p :: rat) < of_int ((2::int) ^ nat (bitlen p))"
      by (simp only: of_int_less_iff)
    then have hi: "of_int p < (2::rat) powi (bitlen p)"
      using bp by (simp add: power_int_def)
    have "(2::int) ^ nat (bitlen q - 1) \<le> q"
      using bitlen_bounds[OF q] by simp
    then have "(of_int ((2::int) ^ nat (bitlen q - 1)) :: rat) \<le> of_int q"
      by (simp only: of_int_le_iff)
    then have lo: "(2::rat) powi (bitlen q - 1) \<le> of_int q"
      using bq by (simp add: power_int_def)
    have "x = of_int p / of_int q" by (rule x)
    also have "\<dots> < 2 powi (bitlen p) / 2 powi (bitlen q - 1)"
      using lo hi q p by (intro frac_less) auto
    also have "\<dots> = 2 powi (?d + 1)"
      by (simp add: power_int_diff power_int_add)
    finally show ?thesis
      using True by (simp add: ilog2_def pq)
  qed
qed

text \<open>\<open>fl x\<close> is a double: a whole number of quanta, at most \<open>2 ^ 53\<close> of them.\<close>

lemma fl_significand:
  assumes "x \<noteq> 0"
  shows "fl x = of_int (rne (x / quantum x)) * quantum x"
    and "\<bar>rne (x / quantum x)\<bar> \<le> 2 ^ 53"
proof -
  show "fl x = of_int (rne (x / quantum x)) * quantum x"
    using assms by (simp add: fl_def)
  let ?q = "quantum x"
  have q: "0 < ?q" by (rule quantum_pos)
  have "\<bar>x\<bar> < 2 powi (ilog2 \<bar>x\<bar> + 1)"
    using assms by (intro ilog2_less) simp
  also have "\<dots> \<le> 2 powi (max (ilog2 \<bar>x\<bar>) (- 1022) + 1)"
    by (intro power_int_increasing) auto
  also have "\<dots> = 2 ^ 53 * ?q"
    by (simp add: quantum_def power_int_diff power_int_add)
  finally have "\<bar>x / ?q\<bar> < 2 ^ 53"
    using q by (simp add: abs_mult abs_divide pos_divide_less_eq)
  moreover have "\<bar>of_int (rne (x / ?q)) - x / ?q\<bar> \<le> 1 / 2"
    by (rule rne_error)
  ultimately have "\<bar>(of_int (rne (x / ?q)) :: rat)\<bar> < 2 ^ 53 + 1"
    by linarith
  then have "(of_int \<bar>rne (x / ?q)\<bar> :: rat) < of_int (2 ^ 53 + 1)"
    by simp
  then have "\<bar>rne (x / ?q)\<bar> < 2 ^ 53 + 1"
    by (simp only: of_int_less_iff)
  then show "\<bar>rne (x / quantum x)\<bar> \<le> 2 ^ 53" by simp
qed

lemma u53_pos [simp]: "0 < u53" "0 \<le> u53"
  by (simp_all add: u53_def)

lemma tau_pos [simp]: "0 < tau1022" "0 \<le> tau1022"
  by (simp_all add: tau1022_def)

lemma tau_small: "tau1022 \<le> 1 / 200"
proof -
  have "(2::rat) powi (- 1022) \<le> 2 powi (- 8)"
    by (intro power_int_increasing) auto
  also have "\<dots> = 1 / 256" by (simp add: power_int_minus)
  also have "\<dots> \<le> 1 / 200" by simp
  finally show ?thesis by (simp add: tau1022_def)
qed

lemma fl_err: "\<bar>fl x - x\<bar> \<le> u53 * (\<bar>x\<bar> + tau1022)"
  using fl_error[of x] by (simp add: u53_def tau1022_def)

lemma fl_step:
  assumes "\<bar>y - x\<bar> \<le> (P - 1) * W" and "\<bar>x\<bar> + tau1022 \<le> W" and "1 \<le> P"
  shows "\<bar>fl y - x\<bar> \<le> (P * (1 + u53) - 1) * W"
proof -
  have "\<bar>y\<bar> \<le> \<bar>x\<bar> + \<bar>y - x\<bar>" by linarith
  with assms(1,2) have "\<bar>y\<bar> + tau1022 \<le> W + (P - 1) * W" by linarith
  also have "\<dots> = P * W" by (simp add: algebra_simps)
  finally have "u53 * (\<bar>y\<bar> + tau1022) \<le> u53 * (P * W)"
    by (intro mult_left_mono) auto
  with fl_err[of y] have "\<bar>fl y - y\<bar> \<le> u53 * (P * W)" by linarith
  moreover have "\<bar>fl y - x\<bar> \<le> \<bar>fl y - y\<bar> + \<bar>y - x\<bar>" by linarith
  ultimately have "\<bar>fl y - x\<bar> \<le> u53 * (P * W) + (P - 1) * W"
    using assms(1) by linarith
  also have "\<dots> = (P * (1 + u53) - 1) * W" by (simp add: algebra_simps)
  finally show ?thesis .
qed

text \<open>One row: the minutes as computed against the exact minutes.\<close>

lemma minutes_error:
  fixes a :: rat
  defines "x \<equiv> a / 60000"
  shows "\<bar>fl (fl a / (1000 * 60)) - x\<bar> \<le> ((1 + u53) ^ 2 - 1) * (\<bar>x\<bar> + tau1022)"
proof -
  have "\<bar>fl a / (1000 * 60) - x\<bar> = \<bar>fl a - a\<bar> / 60000"
    by (simp add: x_def diff_divide_distrib[symmetric])
  also have "\<dots> \<le> (u53 * (\<bar>a\<bar> + tau1022)) / 60000"
    using fl_err[of a] by (intro divide_right_mono) auto
  also have "\<dots> = u53 * (\<bar>x\<bar> + tau1022 / 60000)"
    by (simp add: x_def algebra_simps add_divide_distrib)
  also have "\<dots> \<le> u53 * (\<bar>x\<bar> + tau1022)"
    by (intro mult_left_mono add_left_mono) auto
  finally have "\<bar>fl a / (1000 * 60) - x\<bar> \<le> ((1 + u53) - 1) * (\<bar>x\<bar> + tau1022)"
    by simp
  from fl_step[OF this] have "\<bar>fl (fl a / (1000 * 60)) - x\<bar> \<le> ((1 + u53) * (1 + u53) - 1) * (\<bar>x\<bar> + tau1022)"
    by simp
  then show ?thesis by (simp add: power2_eq_square)
qed

lemma power_u_ge1: "1 \<le> (1 + u53) ^ k"
  by (rule one_le_power) (simp add: u53_def)

lemma power_u_mono: "j \<le> k \<Longrightarrow> (1 + u53) ^ j \<le> (1 + u53) ^ k"
  by (rule power_increasing) (simp_all add: u53_def)

text \<open>The loop: the sum as computed against the exact sum of the rows that have both times.\<close>

lemma responseTimesLoop_error:
  assumes "\<bar>t - T\<bar> \<le> ((1 + u53) ^ (c + 2) - 1) * W" and "\<bar>T\<bar> \<le> W"
  shows "snd (responseTimesLoop rs (t, c)) = c + length (filter spec_timed rs)
       \<and> \<bar>fst (responseTimesLoop rs (t, c)) - (T + sum_list (map spec_minutes (filter spec_timed rs)))\<bar>
           \<le> ((1 + u53) ^ (c + length (filter spec_timed rs) + 2) - 1)
              * (W + sum_list (map (\<lambda>r. \<bar>spec_minutes r\<bar> + tau1022) (filter spec_timed rs)))"
  using assms
proof (induction rs arbitrary: t c T W)
  case Nil
  then show ?case by simp
next
  case (Cons r rs)
  show ?case
  proof (cases "spec_timed r")
    case False
    then have "responseTimesLoop (r # rs) (t, c) = responseTimesLoop rs (t, c)"
      by (auto simp: spec_timed_def spec_present_def diffMs_def split: option.splits)
    with False Cons.IH[OF Cons.prems] show ?thesis by simp
  next
    case True
    then obtain d e where de: "dispatchTime r = Some d" "completionTime r = Some e"
        "validTime d" "validTime e"
      by (auto simp: spec_timed_def spec_present_def split: option.splits)
    let ?a = "of_int e - of_int d :: rat"
    let ?x = "spec_minutes r"
    let ?q = "fl (fl ?a / (1000 * 60))"
    have x: "?x = ?a / 60000"
      by (simp add: spec_minutes_def de)
    have step: "responseTimesLoop (r # rs) (t, c) = responseTimesLoop rs (fl (t + ?q), Suc c)"
      by (simp add: de diffMs_def)
    have q: "\<bar>?q - ?x\<bar> \<le> ((1 + u53) ^ 2 - 1) * (\<bar>?x\<bar> + tau1022)"
      unfolding x by (rule minutes_error)
    have W: "0 \<le> W" using Cons.prems(2) by linarith
    have "(1 + u53) ^ 2 \<le> (1 + u53) ^ (c + 2)"
      by (rule power_u_mono) simp
    then have "((1 + u53) ^ 2 - 1) * (\<bar>?x\<bar> + tau1022) \<le> ((1 + u53) ^ (c + 2) - 1) * (\<bar>?x\<bar> + tau1022)"
      by (intro mult_right_mono) simp_all
    with q Cons.prems(1)
    have "\<bar>(t + ?q) - (T + ?x)\<bar> \<le> ((1 + u53) ^ (c + 2) - 1) * W
             + ((1 + u53) ^ (c + 2) - 1) * (\<bar>?x\<bar> + tau1022)"
      by linarith
    then have near: "\<bar>(t + ?q) - (T + ?x)\<bar> \<le> ((1 + u53) ^ (c + 2) - 1) * (W + (\<bar>?x\<bar> + tau1022))"
      by (simp only: distrib_left)
    have mag: "\<bar>T + ?x\<bar> + tau1022 \<le> W + (\<bar>?x\<bar> + tau1022)"
      using Cons.prems(2) by linarith
    from fl_step[OF near mag power_u_ge1]
    have t': "\<bar>fl (t + ?q) - (T + ?x)\<bar> \<le> ((1 + u53) ^ (Suc c + 2) - 1) * (W + (\<bar>?x\<bar> + tau1022))"
      by (simp add: mult.commute)
    have T': "\<bar>T + ?x\<bar> \<le> W + (\<bar>?x\<bar> + tau1022)"
      using mag tau_pos(1) by linarith
    from Cons.IH[OF t' T'] True show ?thesis
      unfolding step by (simp add: add.assoc add.left_commute)
  qed
qed

lemma sum_list_abs_tau:
  "sum_list (map (\<lambda>r. \<bar>f r\<bar> + (c::rat)) rs) = sum_list (map (\<lambda>r. \<bar>f r\<bar>) rs) + of_nat (length rs) * c"
  by (induction rs) (simp_all add: algebra_simps)

lemma abs_sum_list_le: "\<bar>sum_list (map f rs)\<bar> \<le> sum_list (map (\<lambda>r. \<bar>f r :: rat\<bar>) rs)"
proof (induction rs)
  case Nil
  show ?case by simp
next
  case (Cons r rs)
  have "\<bar>f r + sum_list (map f rs)\<bar> \<le> \<bar>f r\<bar> + \<bar>sum_list (map f rs)\<bar>"
    by (rule abs_triangle_ineq)
  with Cons show ?case by simp
qed

lemma sum_list_abs_nonneg: "0 \<le> sum_list (map (\<lambda>r. \<bar>f r :: rat\<bar>) rs)"
  by (induction rs) simp_all

text \<open>The mean as computed against the exact mean.\<close>

lemma averageResponseTime_error:
  assumes "filter spec_timed rs \<noteq> []"
  defines "cs \<equiv> filter spec_timed rs"
  shows "\<bar>averageResponseTime rs - spec_meanMinutes cs\<bar>
           \<le> ((1 + u53) ^ (length cs + 3) - 1) * (spec_meanAbsMinutes cs + tau1022)"
proof -
  let ?n = "length cs"
  let ?N = "of_nat ?n :: rat"
  have n: "0 < ?n" using assms by simp
  then have N: "0 < ?N" by simp
  have rs: "rs \<noteq> []" using assms(1) by auto
  obtain t k where loop: "responseTimesLoop rs (0, 0) = (t, k)"
    by (cases "responseTimesLoop rs (0, 0)")
  from responseTimesLoop_error[of 0 0 0 0 rs] loop
  have k: "k = ?n"
    and t: "\<bar>t - sum_list (map spec_minutes cs)\<bar>
             \<le> ((1 + u53) ^ (?n + 2) - 1) * sum_list (map (\<lambda>r. \<bar>spec_minutes r\<bar> + tau1022) cs)"
    by (simp_all add: cs_def)
  let ?S = "sum_list (map spec_minutes cs)"
  let ?A = "sum_list (map (\<lambda>r. \<bar>spec_minutes r\<bar>) cs)"
  have avg: "averageResponseTime rs = fl (t / ?N)"
    using rs n by (simp add: averageResponseTime_def loop k)
  have "\<bar>t / ?N - ?S / ?N\<bar> = \<bar>t - ?S\<bar> / ?N"
    using N by (simp add: diff_divide_distrib[symmetric])
  also have "\<dots> \<le> (((1 + u53) ^ (?n + 2) - 1) * (?A + ?N * tau1022)) / ?N"
    using t N by (intro divide_right_mono) (simp_all add: sum_list_abs_tau)
  also have "\<dots> = ((1 + u53) ^ (?n + 2) - 1) * (?A / ?N + tau1022)"
    using N by (simp add: field_simps)
  finally have near: "\<bar>t / ?N - spec_meanMinutes cs\<bar>
      \<le> ((1 + u53) ^ (?n + 2) - 1) * (spec_meanAbsMinutes cs + tau1022)"
    by (simp add: spec_meanMinutes_def spec_meanAbsMinutes_def)
  have "\<bar>?S\<bar> / ?N \<le> ?A / ?N"
    using N abs_sum_list_le[of spec_minutes cs] by (intro divide_right_mono) simp_all
  then have mag: "\<bar>spec_meanMinutes cs\<bar> + tau1022 \<le> spec_meanAbsMinutes cs + tau1022"
    using N by (simp add: spec_meanMinutes_def spec_meanAbsMinutes_def)
  from fl_step[OF near mag power_u_ge1]
  have "\<bar>fl (t / ?N) - spec_meanMinutes cs\<bar>
          \<le> ((1 + u53) ^ (?n + 2) * (1 + u53) - 1) * (spec_meanAbsMinutes cs + tau1022)" .
  moreover have "(1 + u53) ^ (?n + 2) * (1 + u53) = (1 + u53) ^ (?n + 3)"
    by (simp add: numeral_3_eq_3 numeral_2_eq_2)
  ultimately show ?thesis
    by (simp only: avg)
qed

text \<open>The rounding to two decimals.\<close>

lemma toFixedDigits_error: "\<bar>of_int (toFixedDigits x) / 100 - x\<bar> \<le> 1 / 200"
proof (cases "x < 0")
  case False
  define z where "z = \<lfloor>x * 100 + 1 / 2\<rfloor>"
  have "of_int z \<le> x * 100 + 1 / 2" "x * 100 + 1 / 2 < of_int z + 1"
    unfolding z_def by linarith+
  then have "of_int z / 100 - x \<le> 1 / 200" "x - of_int z / 100 \<le> 1 / 200"
    by linarith+
  then have "\<bar>of_int z / 100 - x\<bar> \<le> 1 / 200"
    by (simp only: abs_le_iff minus_diff_eq)
  with False show ?thesis by (simp add: toFixedDigits_def z_def)
next
  case True
  define z where "z = \<lfloor>(- x) * 100 + 1 / 2\<rfloor>"
  have "of_int z \<le> (- x) * 100 + 1 / 2" "(- x) * 100 + 1 / 2 < of_int z + 1"
    unfolding z_def by linarith+
  then have "of_int (- z) / 100 - x \<le> 1 / 200" "x - of_int (- z) / 100 \<le> 1 / 200"
    by simp_all
  then have "\<bar>of_int (- z) / 100 - x\<bar> \<le> 1 / 200"
    by (simp only: abs_le_iff minus_diff_eq)
  with True show ?thesis by (simp add: toFixedDigits_def z_def)
qed

lemma toFixed2_error: "\<bar>toFixed2 x - x\<bar> \<le> 1 / 200 + u53 * (\<bar>x\<bar> + 1 / 200 + tau1022)"
proof (cases "10 ^ 21 \<le> \<bar>x\<bar>")
  case True
  have "0 \<le> u53 * (\<bar>x\<bar> + 1 / 200 + tau1022)"
    by (intro mult_nonneg_nonneg add_nonneg_nonneg) auto
  with True show ?thesis by (simp add: toFixed2_def)
next
  case False
  let ?k = "of_int (toFixedDigits x) / 100 :: rat"
  have k: "\<bar>?k - x\<bar> \<le> 1 / 200" by (rule toFixedDigits_error)
  then have "\<bar>?k\<bar> + tau1022 \<le> \<bar>x\<bar> + 1 / 200 + tau1022" by linarith
  then have "u53 * (\<bar>?k\<bar> + tau1022) \<le> u53 * (\<bar>x\<bar> + 1 / 200 + tau1022)"
    by (intro mult_left_mono) auto
  with fl_err[of ?k] k have "\<bar>fl ?k - x\<bar> \<le> 1 / 200 + u53 * (\<bar>x\<bar> + 1 / 200 + tau1022)"
    by linarith
  with False show ?thesis by (simp add: toFixed2_def)
qed

text \<open>The statistic against the exact mean.\<close>

lemma statistic_error:
  assumes "filter spec_timed rs \<noteq> []"
  defines "cs \<equiv> filter spec_timed rs"
  shows "\<bar>toFixed2 (averageResponseTime rs) - spec_meanMinutes cs\<bar>
           \<le> 1 / 200 + ((1 + u53) ^ (length cs + 4) - 1) * (spec_meanAbsMinutes cs + 1)"
proof -
  let ?m = "averageResponseTime rs"
  let ?mu = "spec_meanMinutes cs"
  let ?A = "spec_meanAbsMinutes cs"
  let ?P = "(1 + u53) ^ (length cs + 3)"
  have P: "1 \<le> ?P" by (rule power_u_ge1)
  have A: "0 \<le> ?A"
    by (simp add: spec_meanAbsMinutes_def sum_list_abs_nonneg)
  have E: "\<bar>?m - ?mu\<bar> \<le> (?P - 1) * (?A + tau1022)"
    using averageResponseTime_error[OF assms(1)] by (simp add: cs_def)
  have mu: "\<bar>?mu\<bar> \<le> ?A"
  proof -
    have "\<bar>sum_list (map spec_minutes cs)\<bar> / of_nat (length cs)
            \<le> sum_list (map (\<lambda>r. \<bar>spec_minutes r\<bar>) cs) / of_nat (length cs)"
      using abs_sum_list_le[of spec_minutes cs] by (intro divide_right_mono) simp_all
    then show ?thesis by (simp add: spec_meanMinutes_def spec_meanAbsMinutes_def)
  qed
  have E1: "(?P - 1) * (?A + tau1022) \<le> (?P - 1) * (?A + 1)"
    using P tau_small by (intro mult_left_mono) auto
  have "\<bar>?m\<bar> \<le> \<bar>?mu\<bar> + \<bar>?m - ?mu\<bar>" by linarith
  with mu E have "\<bar>?m\<bar> + 1 / 200 + tau1022 \<le> ?A + tau1022 + 1 / 200 + (?P - 1) * (?A + tau1022)"
    by linarith
  also have "\<dots> = ?P * (?A + tau1022) + 1 / 200" by (simp add: algebra_simps)
  also have "\<dots> \<le> ?P * (?A + tau1022) + ?P * (1 / 200)"
    using P by simp
  also have "\<dots> = ?P * (?A + (tau1022 + 1 / 200))" by (simp add: algebra_simps)
  also have "\<dots> \<le> ?P * (?A + 1)"
    using P tau_small by (intro mult_left_mono add_left_mono) auto
  finally have "u53 * (\<bar>?m\<bar> + 1 / 200 + tau1022) \<le> u53 * (?P * (?A + 1))"
    by (intro mult_left_mono) auto
  with toFixed2_error[of ?m]
  have R: "\<bar>toFixed2 ?m - ?m\<bar> \<le> 1 / 200 + u53 * (?P * (?A + 1))" by linarith
  have "\<bar>toFixed2 ?m - ?mu\<bar> \<le> \<bar>toFixed2 ?m - ?m\<bar> + \<bar>?m - ?mu\<bar>" by linarith
  with R E E1 have total: "\<bar>toFixed2 ?m - ?mu\<bar>
      \<le> 1 / 200 + (u53 * (?P * (?A + 1)) + (?P - 1) * (?A + 1))"
    by linarith
  have "u53 * (?P * (?A + 1)) + (?P - 1) * (?A + 1) = (?P * (1 + u53) - 1) * (?A + 1)"
    by (simp add: algebra_simps)
  also have "?P * (1 + u53) = (1 + u53) ^ (length cs + 4)"
    by (simp add: eval_nat_numeral)
  finally show ?thesis using total by simp
qed

text \<open>The mean stays far below \<open>10 ^ 21\<close>, so the statistic is the double nearest to a
  whole number of hundredths.\<close>

lemma bernoulli_inverse:
  fixes x :: rat
  assumes "0 \<le> x" and "of_nat k * x \<le> 1"
  shows "(1 + x) ^ k * (1 - of_nat k * x) \<le> 1"
  using assms(2)
proof (induction k)
  case 0
  show ?case by simp
next
  case (Suc k)
  have "of_nat k * x \<le> of_nat (Suc k) * x"
    using assms(1) by (intro mult_right_mono) auto
  with Suc.prems have kx: "of_nat k * x \<le> 1" by linarith
  have "(1 + x) * (1 - of_nat (Suc k) * x) = 1 - of_nat k * x - of_nat (Suc k) * x * x"
    by (simp add: algebra_simps)
  also have "\<dots> \<le> 1 - of_nat k * x"
    using assms(1) by simp
  finally have "(1 + x) ^ k * ((1 + x) * (1 - of_nat (Suc k) * x)) \<le> (1 + x) ^ k * (1 - of_nat k * x)"
    using assms(1) by (intro mult_left_mono) auto
  also have "\<dots> \<le> 1" using Suc.IH[OF kx] .
  finally show ?case by (simp add: mult_ac)
qed

lemma power_u_le4:
  assumes "k \<le> 2 ^ 52 + 2"
  shows "(1 + u53) ^ k \<le> 4"
proof -
  have "(of_nat k :: rat) \<le> of_nat (2 ^ 52 + 2)"
    using assms by (simp only: of_nat_le_iff)
  then have "of_nat k * u53 \<le> (2 ^ 52 + 2) * u53"
    by (intro mult_right_mono) auto
  also have "\<dots> \<le> 3 / 4" by (simp add: u53_def)
  finally have ku: "of_nat k * u53 \<le> 3 / 4" .
  then have "of_nat k * u53 \<le> 1" by simp
  from bernoulli_inverse[OF u53_pos(2) this]
  have "(1 + u53) ^ k * (1 - of_nat k * u53) \<le> 1" .
  moreover have "(1 + u53) ^ k * (1 / 4) \<le> (1 + u53) ^ k * (1 - of_nat k * u53)"
    using ku by (intro mult_left_mono) auto
  ultimately show ?thesis by simp
qed

lemma spec_minutes_bound:
  assumes "spec_timed r"
  shows "\<bar>spec_minutes r\<bar> \<le> 288000000000"
proof -
  from assms obtain d c where dc: "dispatchTime r = Some d" "completionTime r = Some c"
      "\<bar>d\<bar> \<le> 8640000000000000" "\<bar>c\<bar> \<le> 8640000000000000"
    by (auto simp: spec_timed_def spec_present_def validTime_def split: option.splits)
  then have "\<bar>c - d\<bar> \<le> 17280000000000000" by linarith
  then have "(of_int \<bar>c - d\<bar> :: rat) \<le> of_int 17280000000000000"
    by (simp only: of_int_le_iff)
  then have "\<bar>of_int (c - d) :: rat\<bar> \<le> 17280000000000000" by simp
  then show ?thesis by (simp add: spec_minutes_def dc)
qed

lemma spec_meanAbsMinutes_bound:
  assumes "\<forall>r \<in> set cs. spec_timed r"
  shows "spec_meanAbsMinutes cs \<le> 288000000000"
proof (cases "cs = []")
  case True
  then show ?thesis by (simp add: spec_meanAbsMinutes_def)
next
  case False
  have "sum_list (map (\<lambda>r. \<bar>spec_minutes r\<bar>) cs) \<le> of_nat (length cs) * 288000000000"
    using assms
  proof (induction cs)
    case Nil
    show ?case by simp
  next
    case (Cons r cs)
    then show ?case
      using spec_minutes_bound[of r] by (simp add: algebra_simps)
  qed
  then show ?thesis
    using False by (simp add: spec_meanAbsMinutes_def pos_divide_le_eq mult.commute)
qed

lemma averageResponseTime_untimed:
  assumes "filter spec_timed rs = []"
  shows "averageResponseTime rs = 0"
proof -
  from responseTimesLoop_error[of 0 0 0 0 rs] assms
  have "snd (responseTimesLoop rs (0, 0)) = 0" by simp
  then show ?thesis
    by (auto simp: averageResponseTime_def split: prod.splits)
qed

lemma averageResponseTime_small:
  assumes "length rs < 2 ^ 52"
  shows "\<bar>averageResponseTime rs\<bar> < 10 ^ 21"
proof (cases "filter spec_timed rs = []")
  case True
  then show ?thesis by (simp add: averageResponseTime_untimed)
next
  case False
  let ?cs = "filter spec_timed rs"
  let ?P = "(1 + u53) ^ (length ?cs + 3)"
  let ?A = "spec_meanAbsMinutes ?cs"
  have "length ?cs + 3 \<le> 2 ^ 52 + 2"
    using length_filter_le[of spec_timed rs] assms by linarith
  then have P: "?P \<le> 4" by (rule power_u_le4)
  have P1: "1 \<le> ?P" by (rule power_u_ge1)
  have A: "?A \<le> 288000000000"
    by (rule spec_meanAbsMinutes_bound) simp
  have A0: "0 \<le> ?A"
    by (simp add: spec_meanAbsMinutes_def sum_list_abs_nonneg)
  have mu: "\<bar>spec_meanMinutes ?cs\<bar> \<le> ?A"
  proof -
    have "\<bar>sum_list (map spec_minutes ?cs)\<bar> / of_nat (length ?cs)
            \<le> sum_list (map (\<lambda>r. \<bar>spec_minutes r\<bar>) ?cs) / of_nat (length ?cs)"
      using abs_sum_list_le[of spec_minutes ?cs] by (intro divide_right_mono) simp_all
    then show ?thesis by (simp add: spec_meanMinutes_def spec_meanAbsMinutes_def)
  qed
  have "(?P - 1) * (?A + tau1022) \<le> 3 * (?A + tau1022)"
    using P A0 by (intro mult_right_mono) auto
  with averageResponseTime_error[OF False]
  have E: "\<bar>averageResponseTime rs - spec_meanMinutes ?cs\<bar> \<le> 3 * (?A + tau1022)"
    by linarith
  define m where "m = averageResponseTime rs"
  define mu where "mu = spec_meanMinutes ?cs"
  define a where "a = ?A"
  have "\<bar>m\<bar> \<le> \<bar>mu\<bar> + \<bar>m - mu\<bar>" by linarith
  also have "\<dots> \<le> a + 3 * (a + tau1022)"
    using mu E unfolding m_def mu_def a_def by (intro add_mono)
  also have "\<dots> \<le> 288000000000 + 3 * (288000000000 + 1 / 200)"
    using A tau_small unfolding a_def by (intro add_mono mult_left_mono) auto
  also have "\<dots> < 10 ^ 21" by simp
  finally show ?thesis by (simp add: m_def)
qed

text \<open>The sum of the loop stays far below \<open>2 ^ 1024\<close>, where the doubles end, and it does
  so at every turn of the loop, the rows up to that turn being a list of rows: no addition
  overflows.\<close>

lemma sum_list_abs_minutes_bound:
  assumes "\<forall>r \<in> set cs. spec_timed r"
  shows "sum_list (map (\<lambda>r. \<bar>spec_minutes r\<bar>) cs) \<le> of_nat (length cs) * 288000000000"
  using assms
proof (induction cs)
  case Nil
  show ?case by simp
next
  case (Cons r cs)
  then show ?case
    using spec_minutes_bound[of r] by (simp add: algebra_simps)
qed

lemma responseTimesLoop_no_overflow:
  assumes "length rs < 2 ^ 52"
  shows "\<bar>fst (responseTimesLoop rs (0, 0))\<bar> < 2 ^ 1024"
proof -
  let ?cs = "filter spec_timed rs"
  let ?n = "of_nat (length ?cs) :: rat"
  let ?P = "(1 + u53) ^ (length ?cs + 2)"
  let ?S = "sum_list (map spec_minutes ?cs)"
  let ?A = "sum_list (map (\<lambda>r. \<bar>spec_minutes r\<bar>) ?cs)"
  define t where "t = fst (responseTimesLoop rs (0, 0))"
  have len: "length ?cs < 2 ^ 52"
    using length_filter_le[of spec_timed rs] assms by linarith
  then have "length ?cs + 2 \<le> 2 ^ 52 + 2" by simp
  then have P: "?P \<le> 4" by (rule power_u_le4)
  have P1: "1 \<le> ?P" by (rule power_u_ge1)
  have A: "?A \<le> ?n * 288000000000"
    by (rule sum_list_abs_minutes_bound) simp
  have A0: "0 \<le> ?A" by (rule sum_list_abs_nonneg)
  have "(of_nat (length ?cs) :: rat) < of_nat (2 ^ 52)"
    using len by (simp only: of_nat_less_iff)
  then have n: "?n < 2 ^ 52" by simp
  have "?n * tau1022 \<le> ?n * 1"
    using tau_small by (intro mult_left_mono) auto
  then have W: "?A + ?n * tau1022 \<le> ?n * 288000000001"
    using A by linarith
  have W0: "0 \<le> ?A + ?n * tau1022"
    using A0 by (intro add_nonneg_nonneg mult_nonneg_nonneg) auto
  from responseTimesLoop_error[of 0 0 0 0 rs]
  have "\<bar>t - ?S\<bar> \<le> (?P - 1) * (?A + ?n * tau1022)"
    by (simp add: t_def sum_list_abs_tau)
  also have "\<dots> \<le> 3 * (?A + ?n * tau1022)"
    using P W0 by (intro mult_right_mono) auto
  finally have near: "\<bar>t - ?S\<bar> \<le> 3 * (?A + ?n * tau1022)" .
  have S: "\<bar>?S\<bar> \<le> ?A" by (rule abs_sum_list_le)
  have "\<bar>t\<bar> \<le> \<bar>?S\<bar> + \<bar>t - ?S\<bar>" by linarith
  also have "\<dots> \<le> ?A + 3 * (?A + ?n * tau1022)"
    using S near by (intro add_mono)
  also have "\<dots> \<le> 4 * (?A + ?n * tau1022)"
    using W0 A0 by simp
  also have "\<dots> \<le> 4 * (?n * 288000000001)"
    using W by simp
  also have "\<dots> < 4 * (2 ^ 52 * 288000000001)"
    using n by simp
  also have "\<dots> < 2 ^ 1024" by simp
  finally show ?thesis by (simp add: t_def)
qed

lemma statistic_hundredths:
  assumes "length rs < 2 ^ 52"
  shows "toFixed2 (averageResponseTime rs)
           = fl (of_int (toFixedDigits (averageResponseTime rs)) / 100)"
  using averageResponseTime_small[OF assms] by (simp add: toFixed2_def)

lemma power_u_linear:
  assumes "k \<le> 2 ^ 52"
  shows "(1 + u53) ^ k - 1 \<le> of_nat k / 2 ^ 52"
proof -
  let ?P = "(1 + u53) ^ k"
  let ?ku = "of_nat k * u53"
  have "(of_nat k :: rat) \<le> of_nat (2 ^ 52)"
    using assms by (simp only: of_nat_le_iff)
  then have "?ku \<le> 2 ^ 52 * u53"
    by (intro mult_right_mono) auto
  also have "\<dots> = 1 / 2" by (simp add: u53_def)
  finally have ku: "?ku \<le> 1 / 2" .
  have ku0: "0 \<le> ?ku" by simp
  have P0: "0 \<le> ?P" using power_u_ge1[of k] by linarith
  from ku have "?ku \<le> 1" by linarith
  from bernoulli_inverse[OF u53_pos(2) this]
  have bern: "?P * (1 - ?ku) \<le> 1" .
  have "?P * (1 / 2) \<le> ?P * (1 - ?ku)"
    using ku P0 by (intro mult_left_mono) auto
  with bern have P2: "?P \<le> 2" by linarith
  have "?P * (1 - ?ku) = ?P - ?P * ?ku"
    by (simp only: right_diff_distrib mult_1_right)
  with bern have "?P - 1 \<le> ?P * ?ku" by linarith
  also have "\<dots> \<le> 2 * ?ku"
    using P2 ku0 by (intro mult_right_mono)
  also have "\<dots> = of_nat k / 2 ^ 52" by (simp add: u53_def)
  finally show ?thesis .
qed

text \<open>The rows that the loop of \<open>getStats\<close> takes from the completed responses are the
  rows that count in the specification.\<close>

lemma filter_counted:
  "filter spec_timed (filter (\<lambda>r. resp_status r = COMPLETED) rows) = filter spec_counted rows"
  by (induction rows) (auto simp: spec_counted_def)

text \<open>Some doubles: whole numbers are doubles, a tenth and 1.005 are not.\<close>

lemma fl_examples:
  "fl 0 = 0" "fl 5 = 5" "fl 300000 = 300000" "fl 9007199254740993 = 9007199254740992"
  "fl (1 / 10) = 3602879701896397 / 36028797018963968"
  "fl (201 / 200) = 1131529406376837 / 1125899906842624"
  by code_simp+

lemma toFixed2_zero: "toFixed2 0 = 0"
proof -
  have "\<lfloor>(1::rat) / 2\<rfloor> = 0" by linarith
  then show ?thesis by (simp add: toFixed2_def toFixedDigits_def fl_examples)
qed

lemma toFixed2_five: "toFixed2 5 = 5"
proof -
  have "\<lfloor>(5::rat) * 100 + 1 / 2\<rfloor> = 500" by linarith
  then show ?thesis by (simp add: toFixed2_def toFixedDigits_def fl_examples)
qed

text \<open>Five minutes and a row without completion time.\<close>

lemma statistic_five_minutes:
  assumes "dispatchTime r1 = Some t0" and "completionTime r1 = Some (t0 + 5 * 60 * 1000)"
    and "validTime t0" and "validTime (t0 + 5 * 60 * 1000)"
    and "dispatchTime r2 = Some t1" and "completionTime r2 = None"
  shows "toFixed2 (averageResponseTime [r1, r2]) = 5"
  using assms by (simp add: averageResponseTime_def diffMs_def fl_examples toFixed2_five)

text \<open>The statistic of \<open>getStats\<close> against the exact mean of the rows that count.\<close>

lemma statistic_of_rows:
  assumes "length (filter (\<lambda>r. resp_status r = COMPLETED) rows) < 2 ^ 32"
  defines "stat \<equiv> toFixed2 (averageResponseTime (filter (\<lambda>r. resp_status r = COMPLETED) rows))"
  shows "filter spec_counted rows = [] \<Longrightarrow> stat = 0"
    and "filter spec_counted rows \<noteq> [] \<Longrightarrow>
           \<bar>stat - spec_meanResponseTime rows\<bar>
             \<le> 1 / 200 + of_nat (length (filter spec_counted rows) + 4) / 2 ^ 52
                            * (spec_meanAbsMinutes (filter spec_counted rows) + 1)"
    and "\<exists>k::int. stat = fl (of_int k / 100)"
proof -
  let ?rs = "filter (\<lambda>r. resp_status r = COMPLETED) rows"
  let ?cs = "filter spec_counted rows"
  have cs: "filter spec_timed ?rs = ?cs" by (rule filter_counted)
  have len: "length ?rs < 2 ^ 52"
    using assms(1) by simp
  show "stat = 0" if "?cs = []"
  proof -
    have "filter spec_timed ?rs = []" unfolding cs by (rule that)
    then have "averageResponseTime ?rs = 0" by (rule averageResponseTime_untimed)
    then show ?thesis by (simp only: stat_def toFixed2_zero)
  qed
  show "\<exists>k::int. stat = fl (of_int k / 100)"
    unfolding stat_def using statistic_hundredths[OF len] by blast
  show "\<bar>stat - spec_meanResponseTime rows\<bar>
          \<le> 1 / 200 + of_nat (length ?cs + 4) / 2 ^ 52 * (spec_meanAbsMinutes ?cs + 1)"
    if "?cs \<noteq> []"
  proof -
    have "length ?cs \<le> length ?rs"
      using length_filter_le[of spec_timed ?rs] by (simp only: cs)
    with assms(1) have "length ?cs + 4 \<le> 2 ^ 52" by simp
    then have P: "(1 + u53) ^ (length ?cs + 4) - 1 \<le> of_nat (length ?cs + 4) / 2 ^ 52"
      by (rule power_u_linear)
    have A: "0 \<le> spec_meanAbsMinutes ?cs + 1"
      using sum_list_abs_nonneg[of spec_minutes ?cs]
      by (simp add: spec_meanAbsMinutes_def add_nonneg_nonneg)
    have "filter spec_timed ?rs \<noteq> []" unfolding cs by (rule that)
    from statistic_error[OF this]
    have "\<bar>stat - spec_meanResponseTime rows\<bar>
            \<le> 1 / 200 + ((1 + u53) ^ (length ?cs + 4) - 1) * (spec_meanAbsMinutes ?cs + 1)"
      by (simp only: cs stat_def spec_meanResponseTime_def)
    moreover have "((1 + u53) ^ (length ?cs + 4) - 1) * (spec_meanAbsMinutes ?cs + 1)
            \<le> of_nat (length ?cs + 4) / 2 ^ 52 * (spec_meanAbsMinutes ?cs + 1)"
      using P A by (rule mult_right_mono)
    ultimately show ?thesis by linarith
  qed
qed

text \<open>On \<open>store_minute\<close> the mean is 1.005 and the statistic is 1: the mean as computed is
  the double below 1.005, which is nearer to 1 than to 1.01.\<close>

lemma getStats_store_minute:
  "map_sum id st_averageResponseTime (fst (getStats env0 store_minute)) = Inr 1
   \<and> averageResponseTime (emergencyResponses store_minute)
       = 1131529406376837 / 1125899906842624
   \<and> spec_meanResponseTime (emergencyResponses store_minute) = 201 / 200"
  by code_simp

text \<open>
  Claim C8, as stated: the statistic equals the arithmetic mean. On \<open>store_eighth\<close> the
  one completed response took an eighth of a minute, which is the mean; the statistic is
  0.13, that is the double nearest to 13 hundredths: the mean rounded to two decimals.
\<close>

theorem averageResponseTime_rounded_not_mean:
  "map_sum id st_averageResponseTime (fst (getStats env0 store_eighth))
     = Inr (1170935903116329 / 9007199254740992)
   \<and> fl (13 / 100) = 1170935903116329 / 9007199254740992
   \<and> spec_meanResponseTime (emergencyResponses store_eighth) = 1 / 8"
  by code_simp

text \<open>
  Claim C8, amended. While the store is available and the completed responses are fewer
  than \<open>2 ^ 32\<close> (they are the elements of one array), the \<open>averageResponseTime\<close> of the
  dashboard statistics is 0 when no response has status COMPLETED and both timestamps, and
  otherwise lies within \<open>0.005 + (n + 4) / 2 ^ 52 * (a + 1)\<close> of the arithmetic mean, in
  minutes, of completion time minus dispatch time over exactly those responses, where \<open>n\<close>
  is their number and \<open>a\<close> the mean of the absolute values of their minutes: the mean is
  computed in doubles and rounded to two decimals by \<open>toFixed(2)\<close>. The statistic is the
  double nearest to a whole number of hundredths. A response that lacks a timestamp enters
  neither the sum nor the count. When the completed responses are one that took five
  minutes and one without completion time, the statistic is 5.
\<close>

theorem getStats_averageResponseTime:
  assumes "storeAvailable e"
    and "length (filter (\<lambda>r. resp_status r = COMPLETED) (emergencyResponses s)) < 2 ^ 32"
  shows "\<exists>st. getStats e s = (Inr st, s)
     \<and> (if filter spec_counted (emergencyResponses s) = []
        then st_averageResponseTime st = 0
        else \<bar>st_averageResponseTime st - spec_meanResponseTime (emergencyResponses s)\<bar>
               \<le> 1 / 200
                  + of_nat (length (filter spec_counted (emergencyResponses s)) + 4) / 2 ^ 52
                    * (spec_meanAbsMinutes (filter spec_counted (emergencyResponses s)) + 1))
     \<and> (\<exists>k::int. st_averageResponseTime st = fl (of_int k / 100))
     \<and> (\<forall>r1 r2 t0 t1.
          filter (\<lambda>r. resp_status r = COMPLETED) (emergencyResponses s) = [r1, r2]
          \<and> dispatchTime r1 = Some t0 \<and> completionTime r1 = Some (t0 + 5 * 60 * 1000)
          \<and> validTime t0 \<and> validTime (t0 + 5 * 60 * 1000)
          \<and> dispatchTime r2 = Some t1 \<and> completionTime r2 = None
          \<longrightarrow> st_averageResponseTime st = 5)"
proof -
  let ?rows = "emergencyResponses s"
  obtain st where run: "getStats e s = (Inr st, s)"
    and avg: "st_averageResponseTime st =
       toFixed2 (averageResponseTime (filter (\<lambda>r. resp_status r = COMPLETED) ?rows))"
    using getStats_available[OF assms(1), of s] by simp
  have mean: "if filter spec_counted ?rows = []
        then st_averageResponseTime st = 0
        else \<bar>st_averageResponseTime st - spec_meanResponseTime ?rows\<bar>
               \<le> 1 / 200
                  + of_nat (length (filter spec_counted ?rows) + 4) / 2 ^ 52
                    * (spec_meanAbsMinutes (filter spec_counted ?rows) + 1)"
    using statistic_of_rows(1,2)[OF assms(2)] by (simp only: avg split: if_split) blast
  have digits: "\<exists>k::int. st_averageResponseTime st = fl (of_int k / 100)"
    using statistic_of_rows(3)[OF assms(2)] by (simp only: avg)
  have example: "\<forall>r1 r2 t0 t1.
          filter (\<lambda>r. resp_status r = COMPLETED) ?rows = [r1, r2]
          \<and> dispatchTime r1 = Some t0 \<and> completionTime r1 = Some (t0 + 5 * 60 * 1000)
          \<and> validTime t0 \<and> validTime (t0 + 5 * 60 * 1000)
          \<and> dispatchTime r2 = Some t1 \<and> completionTime r2 = None
          \<longrightarrow> st_averageResponseTime st = 5"
    using statistic_five_minutes by (auto simp only: avg)
  from run mean digits example show ?thesis by blast
qed

text \<open>The amended C8 on \<open>store_times\<close>: five minutes, and a response still open.\<close>

theorem getStats_averageResponseTime_witness:
  "storeAvailable env0
   \<and> length (filter (\<lambda>r. resp_status r = COMPLETED) (emergencyResponses store_times)) < 2 ^ 32
   \<and> filter (\<lambda>r. resp_status r = COMPLETED) (emergencyResponses store_times)
       = [response_five_minutes, response_open]
   \<and> dispatchTime response_five_minutes = Some 60000
   \<and> completionTime response_five_minutes = Some (60000 + 5 * 60 * 1000)
   \<and> validTime 60000 \<and> validTime (60000 + 5 * 60 * 1000)
   \<and> dispatchTime response_open = Some 90000
   \<and> completionTime response_open = None
   \<and> filter spec_counted (emergencyResponses store_times) = [response_five_minutes]
   \<and> (\<exists>st. getStats env0 store_times = (Inr st, store_times)
          \<and> st_averageResponseTime st = 5
          \<and> \<bar>st_averageResponseTime st - spec_meanResponseTime (emergencyResponses store_times)\<bar>
               \<le> 1 / 200
                  + of_nat (length (filter spec_counted (emergencyResponses store_times)) + 4)
                      / 2 ^ 52
                    * (spec_meanAbsMinutes (filter spec_counted (emergencyResponses store_times))
                       + 1)
          \<and> (\<exists>k::int. st_averageResponseTime st = fl (of_int k / 100)))"
proof -
  have f: "filter (\<lambda>r. resp_status r = COMPLETED) (emergencyResponses store_times)
             = [response_five_minutes, response_open]"
    by (simp add: store_times_def store0_def response_five_minutes_def response_open_def
          response1_def)
  have l: "length (filter (\<lambda>r. resp_status r = COMPLETED) (emergencyResponses store_times))
             < 2 ^ 32"
    by (simp only: f) simp
  have d1: "dispatchTime response_five_minutes = Some 60000"
    and c1: "completionTime response_five_minutes = Some (60000 + 5 * 60 * 1000)"
    by (simp_all add: response_five_minutes_def response1_def)
  have v: "validTime 60000" "validTime (60000 + 5 * 60 * 1000)"
    by (simp_all add: validTime_def)
  have d2: "dispatchTime response_open = Some 90000"
    and c2: "completionTime response_open = None"
    by (simp_all add: response_open_def response1_def)
  have counted: "filter spec_counted (emergencyResponses store_times) = [response_five_minutes]"
    by (simp add: store_times_def store0_def response_five_minutes_def response_open_def
          response1_def spec_counted_def spec_timed_def spec_present_def validTime_def)
  from getStats_averageResponseTime[OF storeAvailable_env0 l]
  obtain st where run: "getStats env0 store_times = (Inr st, store_times)"
    and mean: "\<bar>st_averageResponseTime st - spec_meanResponseTime (emergencyResponses store_times)\<bar>
               \<le> 1 / 200
                  + of_nat (length (filter spec_counted (emergencyResponses store_times)) + 4)
                      / 2 ^ 52
                    * (spec_meanAbsMinutes (filter spec_counted (emergencyResponses store_times))
                       + 1)"
    and digits: "\<exists>k::int. st_averageResponseTime st = fl (of_int k / 100)"
    and example: "\<forall>r1 r2 t0 t1.
          filter (\<lambda>r. resp_status r = COMPLETED) (emergencyResponses store_times) = [r1, r2]
          \<and> dispatchTime r1 = Some t0 \<and> completionTime r1 = Some (t0 + 5 * 60 * 1000)
          \<and> validTime t0 \<and> validTime (t0 + 5 * 60 * 1000)
          \<and> dispatchTime r2 = Some t1 \<and> completionTime r2 = None
          \<longrightarrow> st_averageResponseTime st = 5"
    using counted by auto
  from example f d1 c1 v d2 c2 have "st_averageResponseTime st = 5"
    by blast
  with run mean digits show ?thesis
    using storeAvailable_env0 l f d1 c1 v d2 c2 counted by blast
qed

text \<open>\<open>getSeverity\<close> computes the severity of the specification.\<close>

lemma getSeverity_spec: "getSeverity e info = spec_severity e info"
proof (cases info)
  case None
  then show ?thesis by (simp add: getSeverity_def spec_severity_def)
next
  case (Some mi)
  show ?thesis
  proof (cases mi)
    case (JObject props)
    show ?thesis
    proof (cases "map_of props ''severity''")
      case None
      with Some JObject show ?thesis by (simp add: getSeverity_def spec_severity_def)
    next
      case (Some v)
      with \<open>info = Some mi\<close> JObject show ?thesis
        by (cases v) (simp_all add: getSeverity_def spec_severity_def)
    qed
  next
    case (JString str)
    show ?thesis
    proof (cases "JSON_parse e str")
      case None
      with Some JString show ?thesis by (simp add: getSeverity_def spec_severity_def)
    next
      case (Some parsed)
      with \<open>info = Some mi\<close> JString show ?thesis
        by (cases parsed) (auto simp: getSeverity_def spec_severity_def)
    qed
  qed (use Some in \<open>simp_all add: getSeverity_def spec_severity_def\<close>)
qed

lemma fold_count:
  "fold (\<lambda>x acc. acc + (if P x then 1 else 0)) xs (n::nat) = n + length (filter P xs)"
  by (induction xs arbitrary: n) auto

lemma criticalCases_count:
  "criticalCases e rs =
     length (filter (\<lambda>r. spec_severity e (medicalInfo r) = Some (Finite 4)) rs)"
  by (simp add: criticalCases_def fold_count getSeverity_spec)

text \<open>
  Claim C10. While the store is available, the \<open>criticalCases\<close> of the dashboard
  statistics is the number of requests whose severity, read from the medical information
  as an object or as the object a JSON string parses to and coerced to a number, equals 4.
  A request whose medical information is absent or unparsable has no severity and is not
  counted; nor is a request whose severity is the number 5, which is what creation sets for
  the grade CRITICAL.
\<close>

theorem getStats_criticalCases:
  assumes "storeAvailable e"
  shows "(\<exists>st. getStats e s = (Inr st, s)
            \<and> st_criticalCases st =
                length (filter (\<lambda>r. spec_severity e (medicalInfo r) = Some (Finite 4))
                          (emergencyRequests s)))
       \<and> criticalCases e
           [r\<lparr>medicalInfo :=
                Some (JObject (AList.update ''severity'' (JNumber (Finite 5)) props))\<rparr>] = 0
       \<and> criticalCases e [r\<lparr>medicalInfo := None\<rparr>] = 0"
proof -
  have "\<exists>st. getStats e s = (Inr st, s)
            \<and> st_criticalCases st =
                length (filter (\<lambda>r. spec_severity e (medicalInfo r) = Some (Finite 4))
                          (emergencyRequests s))"
    unfolding getStats_available[OF assms] by (simp add: criticalCases_count)
  moreover have "criticalCases e
           [r\<lparr>medicalInfo :=
                Some (JObject (AList.update ''severity'' (JNumber (Finite 5)) props))\<rparr>] = 0"
    by (simp add: criticalCases_count spec_severity_def update_conv')
  moreover have "criticalCases e [r\<lparr>medicalInfo := None\<rparr>] = 0"
    by (simp add: criticalCases_count spec_severity_def)
  ultimately show ?thesis by blast
qed

text \<open>C10 on \<open>store_severities\<close>: of the four requests, the one with severity 4 counts.\<close>

theorem getStats_criticalCases_witness:
  "storeAvailable env0
   \<and> (\<exists>st. getStats env0 store_severities = (Inr st, store_severities)
          \<and> st_criticalCases st = 1)"
proof -
  have "length (filter (\<lambda>r. spec_severity env0 (medicalInfo r) = Some (Finite 4))
                  (emergencyRequests store_severities)) = 1"
    by (simp add: store_severities_def store0_def request1_def spec_severity_def env0_def)
  with getStats_criticalCases[OF storeAvailable_env0, of store_severities]
  show ?thesis
    using storeAvailable_env0 by auto
qed

subsection \<open>Severity of a created request\<close>




end
